theory Spec2Isabelle
  imports Main "HOL-Library.AList" "HOL-Library.Char_ord" "HOL-Library.List_Lexorder"
begin

section \<open>JavaScript values\<close>

text \<open>
  The worker of \<^verbatim>\<open>src/index.ts\<close> handles JSON documents, strings and numbers.
  A JSON document is a value of \<open>json\<close>; an object keeps its properties in insertion
  order, as a JavaScript object does for string keys. A property that is missing reads
  as \<^verbatim>\<open>undefined\<close>, which is \<open>None\<close> of \<open>json option\<close>. A \<open>char\<close> stands for one
  code unit of a JavaScript string (below 256), so \<open>length\<close> is \<^verbatim>\<open>.length\<close>. A number
  is an integer or \<^verbatim>\<open>NaN\<close> (\<open>None\<close>): the program computes with counters, page
  numbers and millisecond timestamps only, and the rounding of doubles beyond
  \<open>2^53\<close> is not modelled.
\<close>

datatype json =
  JNull
  | JBool bool
  | JNum int
  | JStr string
  | JArr "json list"
  | JObj "(string \<times> json) list"

type_synonym obj = "(string \<times> json) list"

type_synonym number = "int option"

subsection \<open>Numbers and their text\<close>

definition is_space :: "char \<Rightarrow> bool" where
  "is_space c = (c \<in> set [CHR 0x09, CHR 0x0A, CHR 0x0B, CHR 0x0C, CHR 0x0D, CHR 0x20, CHR 0xA0])"

fun index_of :: "char \<Rightarrow> string \<Rightarrow> nat option" where
  "index_of c [] = None"
| "index_of c (x # xs) = (if c = x then Some 0 else map_option Suc (index_of c xs))"

definition digit_of :: "char \<Rightarrow> nat option" where
  "digit_of c =
     (case index_of c ''0123456789abcdef'' of
        Some d \<Rightarrow> Some d
      | None \<Rightarrow> map_option (\<lambda>d. d + 10) (index_of c ''ABCDEF''))"

definition digit_char :: "nat \<Rightarrow> char" where
  "digit_char d = ''0123456789abcdef'' ! d"

definition is_digit :: "nat \<Rightarrow> char \<Rightarrow> bool" where
  "is_digit R c = (case digit_of c of None \<Rightarrow> False | Some d \<Rightarrow> d < R)"

definition digits_value :: "nat \<Rightarrow> string \<Rightarrow> nat" where
  "digits_value R Z = foldl (\<lambda>a c. a * R + (case digit_of c of None \<Rightarrow> 0 | Some d \<Rightarrow> d)) 0 Z"

text \<open>
  \<^verbatim>\<open>parseInt(string)\<close> with no radix: leading white space is dropped, a sign is read,
  a prefix \<^verbatim>\<open>0x\<close> selects radix 16, and the longest run of digits is the value; with
  no digit the result is \<^verbatim>\<open>NaN\<close>.
\<close>

definition parseInt :: "string \<Rightarrow> number" where
  "parseInt s =
     (let S1 = dropWhile is_space s;
          neg = (case S1 of [] \<Rightarrow> False | c # _ \<Rightarrow> c = CHR ''-'');
          S2 = (case S1 of [] \<Rightarrow> [] | c # cs \<Rightarrow> if c = CHR ''+'' \<or> c = CHR ''-'' then cs else S1);
          hex = (take 2 S2 = ''0x'' \<or> take 2 S2 = ''0X'');
          R = (if hex then 16 else 10);
          S3 = (if hex then drop 2 S2 else S2);
          Z = takeWhile (is_digit R) S3
      in if Z = [] then None
         else Some ((if neg then - 1 else 1) * int (digits_value R Z)))"

fun digits :: "nat \<Rightarrow> string" where
  "digits n = (if n < 10 then [digit_char n] else digits (n div 10) @ [digit_char (n mod 10)])"

declare digits.simps [simp del]

text \<open>\<^verbatim>\<open>x.toString()\<close> of a number: decimal digits, or \<^verbatim>\<open>NaN\<close>.\<close>

definition Number_toString :: "number \<Rightarrow> string" where
  "Number_toString x =
     (case x of
        None \<Rightarrow> ''NaN''
      | Some n \<Rightarrow> if n < 0 then CHR ''-'' # digits (nat (- n)) else digits (nat n))"

text \<open>The comparison \<^verbatim>\<open>x >= y\<close> and the sum \<^verbatim>\<open>x + y\<close>; with \<^verbatim>\<open>NaN\<close> the first is false.\<close>

definition num_ge :: "number \<Rightarrow> int \<Rightarrow> bool" where
  "num_ge x y = (case x of None \<Rightarrow> False | Some n \<Rightarrow> y \<le> n)"

definition num_gt :: "number \<Rightarrow> int \<Rightarrow> bool" where
  "num_gt x y = (case x of None \<Rightarrow> False | Some n \<Rightarrow> y < n)"

definition num_add :: "number \<Rightarrow> int \<Rightarrow> number" where
  "num_add x y = map_option (\<lambda>n. n + y) x"

definition num_mul :: "number \<Rightarrow> number \<Rightarrow> number" where
  "num_mul x y = (case x of None \<Rightarrow> None | Some a \<Rightarrow> map_option (\<lambda>b. a * b) y)"

text \<open>A number inside a JSON document: \<^verbatim>\<open>JSON.stringify\<close> writes \<^verbatim>\<open>NaN\<close> as \<^verbatim>\<open>null\<close>.\<close>

definition num_json :: "number \<Rightarrow> json" where
  "num_json x = (case x of None \<Rightarrow> JNull | Some n \<Rightarrow> JNum n)"

subsection \<open>Objects\<close>

text \<open>
  \<open>obj_assign target source\<close> copies the properties of \<open>source\<close> onto \<open>target\<close>, as the
  spread \<^verbatim>\<open>{...target, ...source}\<close> and an object literal do: a key that exists keeps
  its place and takes the new value, a new key goes last.
\<close>

definition obj_assign :: "obj \<Rightarrow> obj \<Rightarrow> obj" where
  "obj_assign target source = foldl (\<lambda>acc kv. AList.update (fst kv) (snd kv) acc) target source"

text \<open>The own enumerable properties that \<^verbatim>\<open>{...v}\<close> copies from a decoded value.\<close>

definition spread :: "json \<Rightarrow> obj" where
  "spread v =
     (case v of
        JObj kvs \<Rightarrow> kvs
      | JArr vs \<Rightarrow> map (\<lambda>i. (digits i, vs ! i)) [0 ..< length vs]
      | JStr s \<Rightarrow> map (\<lambda>i. (digits i, JStr [s ! i])) [0 ..< length s]
      | _ \<Rightarrow> [])"

text \<open>
  \<open>get_prop v k\<close> is \<^verbatim>\<open>v.k\<close> for the keys the program reads (\<^verbatim>\<open>id\<close>, \<^verbatim>\<open>status\<close>,
  \<^verbatim>\<open>priority\<close>) on a value that is not \<^verbatim>\<open>null\<close>: only an object has them.
\<close>

definition get_prop :: "json \<Rightarrow> string \<Rightarrow> json option" where
  "get_prop v k = (case v of JObj kvs \<Rightarrow> map_of kvs k | _ \<Rightarrow> None)"

text \<open>An object literal; a property whose value is \<^verbatim>\<open>undefined\<close> is not serialised.\<close>

definition obj_lit :: "(string \<times> json option) list \<Rightarrow> obj" where
  "obj_lit ps = concat (map (\<lambda>p. case snd p of None \<Rightarrow> [] | Some v \<Rightarrow> [(fst p, v)]) ps)"

fun join :: "string \<Rightarrow> string list \<Rightarrow> string" where
  "join sep [] = []"
| "join sep [x] = x"
| "join sep (x # y # ys) = x @ sep @ join sep (y # ys)"

text \<open>The text a template literal \<^verbatim>\<open>${v}\<close> inserts for a value.\<close>

fun js_String :: "json \<Rightarrow> string"
  and js_elems :: "json list \<Rightarrow> string list" where
  "js_String JNull = ''null''"
| "js_String (JBool b) = (if b then ''true'' else ''false'')"
| "js_String (JNum n) = Number_toString (Some n)"
| "js_String (JStr s) = s"
| "js_String (JArr vs) = join '','' (js_elems vs)"
| "js_String (JObj kvs) = ''[object Object]''"
| "js_elems [] = []"
| "js_elems (v # vs) = (if v = JNull then [] else js_String v) # js_elems vs"

definition template :: "json option \<Rightarrow> string" where
  "template v = (case v of None \<Rightarrow> ''undefined'' | Some x \<Rightarrow> js_String x)"

definition header_text :: "string option \<Rightarrow> string" where
  "header_text h = (case h of None \<Rightarrow> ''undefined'' | Some s \<Rightarrow> s)"

subsection \<open>JSON text\<close>

text \<open>
  The store holds text. \<^verbatim>\<open>JSON.stringify\<close> writes a document with no white space;
  a string is quoted, with the quote, the backslash and the control characters
  escaped.
\<close>

definition escape_char :: "char \<Rightarrow> string" where
  "escape_char c =
     (let n = (of_char c :: nat) in
      if c = CHR 0x22 then [CHR 0x5C, CHR 0x22]
      else if c = CHR 0x5C then [CHR 0x5C, CHR 0x5C]
      else if c = CHR 0x08 then [CHR 0x5C, CHR ''b'']
      else if c = CHR 0x0C then [CHR 0x5C, CHR ''f'']
      else if c = CHR 0x0A then [CHR 0x5C, CHR ''n'']
      else if c = CHR 0x0D then [CHR 0x5C, CHR ''r'']
      else if c = CHR 0x09 then [CHR 0x5C, CHR ''t'']
      else if n < 32 then [CHR 0x5C, CHR ''u'', CHR ''0'', CHR ''0'', digit_char (n div 16), digit_char (n mod 16)]
      else [c])"

definition quote :: "string \<Rightarrow> string" where
  "quote s = CHR 0x22 # concat (map escape_char s) @ [CHR 0x22]"

fun JSON_stringify :: "json \<Rightarrow> string"
  and stringify_elems :: "json list \<Rightarrow> string list"
  and stringify_members :: "(string \<times> json) list \<Rightarrow> string list" where
  "JSON_stringify JNull = ''null''"
| "JSON_stringify (JBool b) = (if b then ''true'' else ''false'')"
| "JSON_stringify (JNum n) = Number_toString (Some n)"
| "JSON_stringify (JStr s) = quote s"
| "JSON_stringify (JArr vs) = ''['' @ join '','' (stringify_elems vs) @ '']''"
| "JSON_stringify (JObj kvs) = ''{'' @ join '','' (stringify_members kvs) @ ''}''"
| "stringify_elems [] = []"
| "stringify_elems (v # vs) = JSON_stringify v # stringify_elems vs"
| "stringify_members [] = []"
| "stringify_members (kv # kvs) = (quote (fst kv) @ '':'' @ JSON_stringify (snd kv)) # stringify_members kvs"

text \<open>
  \<^verbatim>\<open>JSON.parse\<close> reads a document from text and throws a \<^verbatim>\<open>SyntaxError\<close> (\<open>None\<close>) on
  anything else. The reader below follows the JSON grammar by recursive descent. Its
  first argument bounds the number of nested calls; \<open>JSON_parse\<close> starts it with twice
  the length of the text, and no two calls in a row leave the text unread. A number
  with a fraction or an exponent and an escape of a code unit above 255 have no value
  in \<open>json\<close> and are refused. A key that is repeated keeps its first place and its last
  value.
\<close>

definition is_json_ws :: "char \<Rightarrow> bool" where
  "is_json_ws c = (c \<in> set [CHR 0x20, CHR 0x09, CHR 0x0A, CHR 0x0D])"

definition skip_ws :: "string \<Rightarrow> string" where
  "skip_ws s = dropWhile is_json_ws s"

definition unescape :: "char \<Rightarrow> char option" where
  "unescape e =
     (if e = CHR 0x22 then Some (CHR 0x22)
      else if e = CHR 0x5C then Some (CHR 0x5C)
      else if e = CHR ''/'' then Some (CHR ''/'')
      else if e = CHR ''b'' then Some (CHR 0x08)
      else if e = CHR ''f'' then Some (CHR 0x0C)
      else if e = CHR ''n'' then Some (CHR 0x0A)
      else if e = CHR ''r'' then Some (CHR 0x0D)
      else if e = CHR ''t'' then Some (CHR 0x09)
      else None)"

definition hex4 :: "string \<Rightarrow> char option" where
  "hex4 h =
     (if length h = 4 \<and> list_all (is_digit 16) h \<and> digits_value 16 h < 256
      then Some (char_of (digits_value 16 h)) else None)"

fun parse_chars :: "string \<Rightarrow> (string \<times> string) option" where
  "parse_chars [] = None"
| "parse_chars (c # cs) =
     (if c = CHR 0x22 then Some ([], cs)
      else if c = CHR 0x5C then
        (case cs of
           [] \<Rightarrow> None
         | e # r \<Rightarrow>
             if e = CHR ''u'' then
               (case hex4 (take 4 r) of
                  None \<Rightarrow> None
                | Some ch \<Rightarrow>
                    (case parse_chars (drop 4 r) of
                       None \<Rightarrow> None
                     | Some (s, rest) \<Rightarrow> Some (ch # s, rest)))
             else
               (case unescape e of
                  None \<Rightarrow> None
                | Some ch \<Rightarrow>
                    (case parse_chars r of
                       None \<Rightarrow> None
                     | Some (s, rest) \<Rightarrow> Some (ch # s, rest))))
      else if (of_char c :: nat) < 32 then None
      else
        (case parse_chars cs of
           None \<Rightarrow> None
         | Some (s, rest) \<Rightarrow> Some (c # s, rest)))"

definition parse_number :: "string \<Rightarrow> (json \<times> string) option" where
  "parse_number s =
     (let neg = (take 1 s = ''-'');
          s1 = (if neg then drop 1 s else s);
          Z = takeWhile (is_digit 10) s1;
          rest = dropWhile (is_digit 10) s1
      in if Z = [] \<or> (1 < length Z \<and> take 1 Z = ''0'') then None
         else if take 1 rest = ''.'' \<or> take 1 rest = ''e'' \<or> take 1 rest = ''E'' then None
         else Some (JNum ((if neg then - 1 else 1) * int (digits_value 10 Z)), rest))"

fun parse_value :: "nat \<Rightarrow> string \<Rightarrow> (json \<times> string) option"
  and parse_elems :: "nat \<Rightarrow> string \<Rightarrow> (json list \<times> string) option"
  and parse_members :: "nat \<Rightarrow> string \<Rightarrow> (obj \<times> string) option" where
  "parse_value 0 s = None"
| "parse_value (Suc n) s =
     (case skip_ws s of
        [] \<Rightarrow> None
      | c # cs \<Rightarrow>
          if c = CHR ''{'' then
            (case skip_ws cs of
               [] \<Rightarrow> None
             | d # r \<Rightarrow>
                 if d = CHR ''}'' then Some (JObj [], r)
                 else
                   (case parse_members n (d # r) of
                      None \<Rightarrow> None
                    | Some (kvs, rest) \<Rightarrow> Some (JObj (obj_assign [] kvs), rest)))
          else if c = CHR ''['' then
            (case skip_ws cs of
               [] \<Rightarrow> None
             | d # r \<Rightarrow>
                 if d = CHR '']'' then Some (JArr [], r)
                 else
                   (case parse_elems n (d # r) of
                      None \<Rightarrow> None
                    | Some (vs, rest) \<Rightarrow> Some (JArr vs, rest)))
          else if c = CHR 0x22 then
            (case parse_chars cs of
               None \<Rightarrow> None
             | Some (str, rest) \<Rightarrow> Some (JStr str, rest))
          else if take 4 (c # cs) = ''null'' then Some (JNull, drop 4 (c # cs))
          else if take 4 (c # cs) = ''true'' then Some (JBool True, drop 4 (c # cs))
          else if take 5 (c # cs) = ''false'' then Some (JBool False, drop 5 (c # cs))
          else parse_number (c # cs))"
| "parse_elems 0 s = None"
| "parse_elems (Suc n) s =
     (case parse_value n s of
        None \<Rightarrow> None
      | Some (v, r) \<Rightarrow>
          (case skip_ws r of
             [] \<Rightarrow> None
           | d # r' \<Rightarrow>
               if d = CHR '']'' then Some ([v], r')
               else if d = CHR '','' then
                 (case parse_elems n r' of
                    None \<Rightarrow> None
                  | Some (vs, rest) \<Rightarrow> Some (v # vs, rest))
               else None))"
| "parse_members 0 s = None"
| "parse_members (Suc n) s =
     (case skip_ws s of
        [] \<Rightarrow> None
      | q # r \<Rightarrow>
          if q \<noteq> CHR 0x22 then None
          else
            (case parse_chars r of
               None \<Rightarrow> None
             | Some (k, r1) \<Rightarrow>
                 (case skip_ws r1 of
                    [] \<Rightarrow> None
                  | col # r2 \<Rightarrow>
                      if col \<noteq> CHR '':'' then None
                      else
                        (case parse_value n r2 of
                           None \<Rightarrow> None
                         | Some (v, r3) \<Rightarrow>
                             (case skip_ws r3 of
                                [] \<Rightarrow> None
                              | d # r4 \<Rightarrow>
                                  if d = CHR ''}'' then Some ([(k, v)], r4)
                                  else if d = CHR '','' then
                                    (case parse_members n r4 of
                                       None \<Rightarrow> None
                                     | Some (kvs, rest) \<Rightarrow> Some ((k, v) # kvs, rest))
                                  else None)))))"

definition JSON_parse :: "string \<Rightarrow> json option" where
  "JSON_parse s =
     (case parse_value (2 * length s + 2) s of
        None \<Rightarrow> None
      | Some (v, rest) \<Rightarrow> if skip_ws rest = [] then Some v else None)"

section \<open>The key-value store\<close>

text \<open>
  The two bindings \<^verbatim>\<open>TASKS\<close> and \<^verbatim>\<open>COMMENTS\<close> are Workers KV namespaces: maps from
  keys to text, each entry with an optional expiration (seconds since the epoch) and
  optional metadata. The store is a collaborator outside the repository; the model
  gives it the behaviour the program relies on. A namespace is an association list
  with one entry for a key. An entry is readable until its expiration. \<^verbatim>\<open>put\<close> with
  \<^verbatim>\<open>expirationTtl\<close> sets the expiration that many seconds after the time of the call,
  \<^verbatim>\<open>put\<close> without it stores an entry that does not expire, and \<^verbatim>\<open>delete\<close> of a key
  that is not there changes nothing. \<^verbatim>\<open>list\<close> returns the readable keys in
  lexicographic order, at most \<^verbatim>\<open>limit\<close> of them; the program passes an offset as
  the cursor, and the model reads it back as the number of keys to skip. A limit that
  is not a number from 1 to 1000 is refused.

  The store refuses a call that breaks one of its limits, and the call throws: a key
  of more than 512 bytes in \<^verbatim>\<open>get\<close>, \<^verbatim>\<open>put\<close> and \<^verbatim>\<open>delete\<close>, metadata whose JSON text
  has more than 1024 bytes and an \<^verbatim>\<open>expirationTtl\<close> under 60 seconds in \<^verbatim>\<open>put\<close>. Bytes
  are those of the UTF-8 encoding: one for a character below 128, two for the others
  that a \<^typ>\<open>char\<close> can hold. \<open>kv_read\<close>, \<open>kv_write\<close> and \<open>kv_remove\<close> are the
  operations on the content of a namespace, \<open>kv_get\<close>, \<open>kv_put\<close> and \<open>kv_delete\<close> the
  calls that the program makes. The limit on the size of a value (25 MiB), failures of
  the service and the delay with which a write becomes visible elsewhere are not
  modelled.
\<close>

record kv_entry =
  kv_text :: string
  kv_expiration :: "int option"
  kv_metadata :: "json option"

type_synonym kv_namespace = "(string \<times> kv_entry) list"

datatype js_error = SyntaxError | TypeError | StoreError

definition kv_live :: "int \<Rightarrow> kv_entry \<Rightarrow> bool" where
  "kv_live t e = (case kv_expiration e of None \<Rightarrow> True | Some x \<Rightarrow> t < x)"

definition kv_read :: "int \<Rightarrow> kv_namespace \<Rightarrow> string \<Rightarrow> string option" where
  "kv_read t ns k =
     (case map_of ns k of
        None \<Rightarrow> None
      | Some e \<Rightarrow> if kv_live t e then Some (kv_text e) else None)"

definition kv_write ::
  "int \<Rightarrow> kv_namespace \<Rightarrow> string \<Rightarrow> string \<Rightarrow> int option \<Rightarrow> json option \<Rightarrow> kv_namespace" where
  "kv_write t ns k v expirationTtl metadata =
     AList.update k
       \<lparr>kv_text = v, kv_expiration = map_option (\<lambda>d. t + d) expirationTtl, kv_metadata = metadata\<rparr> ns"

definition kv_remove :: "kv_namespace \<Rightarrow> string \<Rightarrow> kv_namespace" where
  "kv_remove ns k = AList.delete k ns"

definition utf8_length :: "string \<Rightarrow> nat" where
  "utf8_length s = length s + length (filter (\<lambda>ch. 128 \<le> (of_char ch :: nat)) s)"

definition kv_key_ok :: "string \<Rightarrow> bool" where
  "kv_key_ok k = (utf8_length k \<le> 512)"

definition kv_metadata_ok :: "json option \<Rightarrow> bool" where
  "kv_metadata_ok metadata =
     (case metadata of None \<Rightarrow> True | Some v \<Rightarrow> utf8_length (JSON_stringify v) \<le> 1024)"

definition kv_ttl_ok :: "int option \<Rightarrow> bool" where
  "kv_ttl_ok expirationTtl = (case expirationTtl of None \<Rightarrow> True | Some d \<Rightarrow> 60 \<le> d)"

definition kv_get :: "int \<Rightarrow> kv_namespace \<Rightarrow> string \<Rightarrow> js_error + string option" where
  "kv_get t ns k = (if kv_key_ok k then Inr (kv_read t ns k) else Inl StoreError)"

definition kv_put ::
  "int \<Rightarrow> kv_namespace \<Rightarrow> string \<Rightarrow> string \<Rightarrow> int option \<Rightarrow> json option \<Rightarrow> js_error + kv_namespace" where
  "kv_put t ns k v expirationTtl metadata =
     (if kv_key_ok k \<and> kv_ttl_ok expirationTtl \<and> kv_metadata_ok metadata
      then Inr (kv_write t ns k v expirationTtl metadata)
      else Inl StoreError)"

definition kv_delete :: "kv_namespace \<Rightarrow> string \<Rightarrow> js_error + kv_namespace" where
  "kv_delete ns k = (if kv_key_ok k then Inr (kv_remove ns k) else Inl StoreError)"

definition kv_keys :: "int \<Rightarrow> kv_namespace \<Rightarrow> string list" where
  "kv_keys t ns = sort (map fst (filter (\<lambda>kv. kv_live t (snd kv)) ns))"

definition kv_list :: "int \<Rightarrow> kv_namespace \<Rightarrow> number \<Rightarrow> string option \<Rightarrow> js_error + string list" where
  "kv_list t ns limit cursor =
     (case limit of
        None \<Rightarrow> Inl StoreError
      | Some n \<Rightarrow>
          if n < 1 \<or> 1000 < n then Inl StoreError
          else
            (let skip = (case cursor of
                           None \<Rightarrow> 0
                         | Some cur \<Rightarrow> (case parseInt cur of None \<Rightarrow> 0 | Some m \<Rightarrow> nat m))
             in Inr (take (nat n) (drop skip (kv_keys t ns)))))"

section \<open>Requests, responses and the environment\<close>

text \<open>
  A context holds what the handlers read from the request and from the runtime: the
  header \<^verbatim>\<open>CF-Connecting-IP\<close>, the URL and the path, the path parameter \<^verbatim>\<open>:id\<close>, the
  query parameters, the decoded JSON body, the clock and the identifier that
  \<^verbatim>\<open>nanoid()\<close> returns. A body that is not JSON does not reach a schema and is outside
  the model. \<^verbatim>\<open>Date.now()\<close> reads the clock in milliseconds. On Workers the
  clock stands still while code runs and moves at I/O only, and every handler takes
  its timestamps in one stretch without I/O, so one reading per request is kept. The
  store measures expirations in seconds of the same clock.
\<close>

record ctx =
  cf_connecting_ip :: "string option"
  url :: string
  path :: string
  param_id :: string
  query :: "(string \<times> string) list"
  body :: json
  now :: int
  nanoid :: string

record env =
  TASKS :: kv_namespace
  COMMENTS :: kv_namespace

datatype payload = Json json | Text string

record response =
  status :: nat
  payload :: payload

type_synonym outcome = "(js_error + response) \<times> env"

definition Date_now :: "ctx \<Rightarrow> int" where
  "Date_now c = now c"

definition kv_now :: "ctx \<Rightarrow> int" where
  "kv_now c = now c div 1000"

definition c_json :: "json \<Rightarrow> nat \<Rightarrow> response" where
  "c_json v st = \<lparr>status = st, payload = Json v\<rparr>"

definition c_text :: "string \<Rightarrow> nat \<Rightarrow> response" where
  "c_text s st = \<lparr>status = st, payload = Text s\<rparr>"

text \<open>
  The program registers no handler with \<^verbatim>\<open>app.notFound\<close>, so \<^verbatim>\<open>c.notFound()\<close> is the
  framework's default: the text \<^verbatim>\<open>404 Not Found\<close> with status 404.
\<close>

definition c_notFound :: response where
  "c_notFound = c_text ''404 Not Found'' 404"

text \<open>\<^verbatim>\<open>app.onError\<close>: an exception that a handler throws becomes the response 500.\<close>

definition onError :: "outcome \<Rightarrow> response \<times> env" where
  "onError r =
     (case fst r of
        Inl err \<Rightarrow> (c_json (JObj [(''error'', JStr ''Internal Server Error'')]) 500, snd r)
      | Inr res \<Rightarrow> (res, snd r))"

section \<open>The rate limiter\<close>

text \<open>
  \<^verbatim>\<open>rateLimiter\<close> (lines 38 to 52) is the last middleware before a route. The
  middlewares before it (\<^verbatim>\<open>cors\<close>, \<^verbatim>\<open>jwt\<close>, \<^verbatim>\<open>csrf\<close>) are library code that answers a
  request itself or passes it on and does not touch the stores; the model starts where
  a request has passed them. \<open>next\<close> is the rest of the chain.
\<close>

definition rate_limit_key :: "string option \<Rightarrow> string" where
  "rate_limit_key ip = ''rate_limit:'' @ header_text ip"

definition read_count :: "string option \<Rightarrow> number" where
  "read_count count = (case count of None \<Rightarrow> Some 0 | Some txt \<Rightarrow> if txt = [] then Some 0 else parseInt txt)"

definition too_many :: response where
  "too_many = c_json (JObj [(''error'', JStr ''Too many requests'')]) 429"

definition rateLimiter :: "ctx \<Rightarrow> (env \<Rightarrow> outcome) \<Rightarrow> env \<Rightarrow> outcome" where
  "rateLimiter c next env =
     (let ip = cf_connecting_ip c;
          rateLimitKey = rate_limit_key ip;
          limit = 100;
          window = 60
      in case kv_get (kv_now c) (TASKS env) rateLimitKey of
           Inl e \<Rightarrow> (Inl e, env)
         | Inr stored \<Rightarrow>
             (let count = read_count stored
              in if num_ge count limit then (Inr too_many, env)
                 else
                   (case kv_put (kv_now c) (TASKS env) rateLimitKey
                           (Number_toString (num_add count 1)) (Some window) None of
                      Inl e \<Rightarrow> (Inl e, env)
                    | Inr tasks \<Rightarrow> next (env\<lparr>TASKS := tasks\<rparr>))))"

text \<open>A request to a route under \<^verbatim>\<open>/api/v1/\<close>, from the rate limiter on.\<close>

definition api_v1 :: "(ctx \<Rightarrow> env \<Rightarrow> outcome) \<Rightarrow> ctx \<Rightarrow> env \<Rightarrow> response \<times> env" where
  "api_v1 route c env = onError (rateLimiter c (route c) env)"

text \<open>Requests served one after the other, each on the state the one before has left.\<close>

fun serve :: "(ctx \<Rightarrow> env \<Rightarrow> outcome) \<Rightarrow> ctx list \<Rightarrow> env \<Rightarrow> env" where
  "serve route [] env = env"
| "serve route (c # cs) env = serve route cs (snd (api_v1 route c env))"

text \<open>The responses that these requests get, in their order.\<close>

fun responses :: "(ctx \<Rightarrow> env \<Rightarrow> outcome) \<Rightarrow> ctx list \<Rightarrow> env \<Rightarrow> response list" where
  "responses route [] env = []"
| "responses route (c # cs) env =
     fst (api_v1 route c env) # responses route cs (snd (api_v1 route c env))"

section \<open>Validation\<close>

text \<open>
  The schemas are built with zod (version 3) and run by \<^verbatim>\<open>zValidator\<close>, both libraries
  outside the repository. The model has the constructors the two schemas use.
  A string is checked for its type first and for its length next; an enumeration
  accepts the listed strings; \<^verbatim>\<open>default\<close> replaces a missing value; \<^verbatim>\<open>optional\<close>
  (what \<^verbatim>\<open>partial()\<close> wraps around every field) lets a missing value through as missing,
  without the default. An object schema reads the keys of its shape only, so a key of
  the body that the shape does not name is dropped, and a key whose result is missing
  is not in the output. Of an issue the code and the path are kept.
\<close>

datatype path_elem = Key string | Index nat

record issue =
  issue_code :: string
  issue_path :: "path_elem list"

datatype ztype =
  ZString
  | ZMin ztype nat
  | ZMax ztype nat
  | ZEnum "string list"
  | ZArray ztype
  | ZDefault ztype json
  | ZOptional ztype

fun zparse :: "ztype \<Rightarrow> path_elem list \<Rightarrow> json option \<Rightarrow> issue list \<times> json option" where
  "zparse ZString p v =
     (case v of
        Some (JStr s) \<Rightarrow> ([], Some (JStr s))
      | _ \<Rightarrow> ([\<lparr>issue_code = ''invalid_type'', issue_path = p\<rparr>], None))"
| "zparse (ZMin t n) p v =
     (case zparse t p v of
        (iss, Some (JStr s)) \<Rightarrow>
          (iss @ (if length s < n then [\<lparr>issue_code = ''too_small'', issue_path = p\<rparr>] else []),
           Some (JStr s))
      | r \<Rightarrow> r)"
| "zparse (ZMax t n) p v =
     (case zparse t p v of
        (iss, Some (JStr s)) \<Rightarrow>
          (iss @ (if n < length s then [\<lparr>issue_code = ''too_big'', issue_path = p\<rparr>] else []),
           Some (JStr s))
      | r \<Rightarrow> r)"
| "zparse (ZEnum options) p v =
     (case v of
        Some (JStr s) \<Rightarrow>
          if s \<in> set options then ([], Some (JStr s))
          else ([\<lparr>issue_code = ''invalid_enum_value'', issue_path = p\<rparr>], None)
      | _ \<Rightarrow> ([\<lparr>issue_code = ''invalid_type'', issue_path = p\<rparr>], None))"
| "zparse (ZArray t) p v =
     (case v of
        Some (JArr vs) \<Rightarrow>
          (let rs = map (\<lambda>i. zparse t (p @ [Index i]) (Some (vs ! i))) [0 ..< length vs]
           in (concat (map fst rs),
               Some (JArr (concat (map (\<lambda>r. case snd r of None \<Rightarrow> [] | Some x \<Rightarrow> [x]) rs)))))
      | _ \<Rightarrow> ([\<lparr>issue_code = ''invalid_type'', issue_path = p\<rparr>], None))"
| "zparse (ZDefault t d) p v = (case v of None \<Rightarrow> ([], Some d) | Some x \<Rightarrow> zparse t p (Some x))"
| "zparse (ZOptional t) p v = (case v of None \<Rightarrow> ([], None) | Some x \<Rightarrow> zparse t p (Some x))"

type_synonym zshape = "(string \<times> ztype) list"

definition zobject :: "zshape \<Rightarrow> json \<Rightarrow> issue list + obj" where
  "zobject shape data =
     (case data of
        JObj kvs \<Rightarrow>
          (let rs = map (\<lambda>kt. (fst kt, zparse (snd kt) [Key (fst kt)] (map_of kvs (fst kt)))) shape;
               issues = concat (map (\<lambda>kr. fst (snd kr)) rs)
           in if issues = [] then Inr (obj_lit (map (\<lambda>kr. (fst kr, snd (snd kr))) rs))
              else Inl issues)
      | _ \<Rightarrow> Inl [\<lparr>issue_code = ''invalid_type'', issue_path = []\<rparr>])"

definition partial :: "zshape \<Rightarrow> zshape" where
  "partial shape = map (\<lambda>kt. (fst kt, ZOptional (snd kt))) shape"

definition taskSchema :: zshape where
  "taskSchema =
     [(''title'', ZMax (ZMin ZString 1) 100),
      (''status'', ZDefault (ZEnum [''todo'', ''in-progress'', ''done'']) (JStr ''todo'')),
      (''priority'', ZDefault (ZEnum [''low'', ''medium'', ''high'']) (JStr ''medium'')),
      (''labels'', ZDefault (ZArray ZString) (JArr []))]"

definition commentSchema :: zshape where
  "commentSchema = [(''content'', ZMax (ZMin ZString 1) 500)]"

text \<open>
  \<^verbatim>\<open>zValidator('json', schema)\<close> with no hook answers a body that fails with status 400
  and the result of the parse as JSON: \<^verbatim>\<open>success\<close> false and the error with its
  \<^verbatim>\<open>issues\<close>. The handler runs on the parsed data otherwise.
\<close>

definition path_json :: "path_elem \<Rightarrow> json" where
  "path_json e = (case e of Key k \<Rightarrow> JStr k | Index i \<Rightarrow> JNum (int i))"

definition issue_json :: "issue \<Rightarrow> json" where
  "issue_json i = JObj [(''code'', JStr (issue_code i)), (''path'', JArr (map path_json (issue_path i)))]"

definition validation_failure :: "issue list \<Rightarrow> json" where
  "validation_failure issues =
     JObj [(''success'', JBool False),
           (''error'', JObj [(''issues'', JArr (map issue_json issues)), (''name'', JStr ''ZodError'')])]"

definition zValidator :: "zshape \<Rightarrow> (obj \<Rightarrow> ctx \<Rightarrow> env \<Rightarrow> outcome) \<Rightarrow> ctx \<Rightarrow> env \<Rightarrow> outcome" where
  "zValidator schema handler c env =
     (case zobject schema (body c) of
        Inl issues \<Rightarrow> (Inr (c_json (validation_failure issues) 400), env)
      | Inr data \<Rightarrow> handler data c env)"

section \<open>Task routes\<close>

subsection \<open>POST /api/v1/tasks (lines 70 to 90)\<close>

definition new_task :: "obj \<Rightarrow> ctx \<Rightarrow> obj" where
  "new_task data c =
     (let title = map_of data ''title'';
          status = map_of data ''status'';
          priority = map_of data ''priority'';
          labels = map_of data ''labels'';
          taskId = nanoid c
      in obj_lit
           [(''id'', Some (JStr taskId)),
            (''title'', title),
            (''status'', status),
            (''priority'', priority),
            (''labels'', labels),
            (''createdAt'', Some (JNum (Date_now c))),
            (''updatedAt'', Some (JNum (Date_now c))),
            (''links'', Some (JObj
               [(''self'', JStr (url c @ ''/'' @ taskId)),
                (''comments'', JStr (url c @ ''/'' @ taskId @ ''/comments''))]))])"

definition create_task :: "obj \<Rightarrow> ctx \<Rightarrow> env \<Rightarrow> outcome" where
  "create_task data c env =
     (let task = new_task data c
      in case kv_put (kv_now c) (TASKS env) (nanoid c) (JSON_stringify (JObj task)) None
                (Some (JObj task)) of
           Inl e \<Rightarrow> (Inl e, env)
         | Inr tasks \<Rightarrow> (Inr (c_json (JObj task) 201), env\<lparr>TASKS := tasks\<rparr>))"

definition post_tasks :: "ctx \<Rightarrow> env \<Rightarrow> outcome" where
  "post_tasks = zValidator taskSchema create_task"

subsection \<open>GET /api/v1/tasks (lines 92 to 140)\<close>

text \<open>
  The record the list shows for one key: the decoded value with fresh links. Reading
  \<^verbatim>\<open>id\<close> of \<^verbatim>\<open>null\<close> throws a \<^verbatim>\<open>TypeError\<close>; text that is not JSON throws a
  \<^verbatim>\<open>SyntaxError\<close>.
\<close>

definition task_view :: "ctx \<Rightarrow> env \<Rightarrow> string \<Rightarrow> js_error + obj" where
  "task_view c env name =
     (case kv_get (kv_now c) (TASKS env) name of
        Inl e \<Rightarrow> Inl e
      | Inr None \<Rightarrow> Inl TypeError
      | Inr (Some txt) \<Rightarrow>
          (case JSON_parse txt of
             None \<Rightarrow> Inl SyntaxError
           | Some task \<Rightarrow>
               if task = JNull then Inl TypeError
               else Inr (obj_assign (spread task)
                      [(''links'', JObj
                         [(''self'', JStr (path c @ ''/'' @ template (get_prop task ''id''))),
                          (''comments'', JStr (path c @ ''/'' @ template (get_prop task ''id'') @ ''/comments''))])])))"

fun Promise_all :: "('e + 'a) list \<Rightarrow> 'e + 'a list" where
  "Promise_all [] = Inr []"
| "Promise_all (r # rs) =
     (case r of
        Inl e \<Rightarrow> Inl e
      | Inr x \<Rightarrow> (case Promise_all rs of Inl e \<Rightarrow> Inl e | Inr xs \<Rightarrow> Inr (x # xs)))"

definition truthy :: "string option \<Rightarrow> bool" where
  "truthy s = (case s of None \<Rightarrow> False | Some txt \<Rightarrow> txt \<noteq> [])"

text \<open>The predicate of \<^verbatim>\<open>tasks.filter\<close>; \<^verbatim>\<open>!==\<close> compares a property with the query string.\<close>

definition keep_task :: "string option \<Rightarrow> string option \<Rightarrow> obj \<Rightarrow> bool" where
  "keep_task status_q priority_q task =
     (if truthy status_q \<and> map_of task ''status'' \<noteq> map_option JStr status_q then False
      else if truthy priority_q \<and> map_of task ''priority'' \<noteq> map_option JStr priority_q then False
      else True)"

definition list_response :: "ctx \<Rightarrow> number \<Rightarrow> number \<Rightarrow> obj list \<Rightarrow> json" where
  "list_response c pageNumber limitNumber filteredTasks =
     JObj
       [(''tasks'', JArr (map JObj filteredTasks)),
        (''metadata'', JObj
           [(''total'', JNum (int (length filteredTasks))),
            (''page'', num_json pageNumber),
            (''limit'', num_json limitNumber)]),
        (''links'', JObj
           [(''self'', JStr (url c)),
            (''next'', JStr (url c @ ''?page='' @ Number_toString (num_add pageNumber 1)
                             @ ''&limit='' @ Number_toString limitNumber)),
            (''prev'', if num_gt pageNumber 1
                       then JStr (url c @ ''?page='' @ Number_toString (num_add pageNumber (- 1))
                                  @ ''&limit='' @ Number_toString limitNumber)
                       else JNull)])]"

definition pageNumber :: "ctx \<Rightarrow> number" where
  "pageNumber c = parseInt (case map_of (query c) ''page'' of None \<Rightarrow> ''1'' | Some p \<Rightarrow> p)"

definition limitNumber :: "ctx \<Rightarrow> number" where
  "limitNumber c = parseInt (case map_of (query c) ''limit'' of None \<Rightarrow> ''10'' | Some l \<Rightarrow> l)"

text \<open>The page of keys: \<^verbatim>\<open>c.env.TASKS.list({ limit, cursor })\<close>.\<close>

definition list_keys :: "ctx \<Rightarrow> env \<Rightarrow> js_error + string list" where
  "list_keys c env =
     (let offset = num_mul (num_add (pageNumber c) (- 1)) (limitNumber c)
      in kv_list (kv_now c) (TASKS env) (limitNumber c)
           (if num_gt offset 0 then Some (Number_toString offset) else None))"

definition get_tasks :: "ctx \<Rightarrow> env \<Rightarrow> outcome" where
  "get_tasks c env =
     (let status = map_of (query c) ''status'';
          priority = map_of (query c) ''priority''
      in case list_keys c env of
           Inl e \<Rightarrow> (Inl e, env)
         | Inr keys \<Rightarrow>
             (case Promise_all (map (task_view c env) keys) of
                Inl e \<Rightarrow> (Inl e, env)
              | Inr tasks \<Rightarrow>
                  (let filteredTasks = filter (keep_task status priority) tasks
                   in (Inr (c_json (list_response c (pageNumber c) (limitNumber c) filteredTasks) 200),
                       env))))"

subsection \<open>GET /api/v1/tasks/:id (lines 142 to 157)\<close>

definition get_task :: "ctx \<Rightarrow> env \<Rightarrow> outcome" where
  "get_task c env =
     (let taskId = param_id c
      in case kv_get (kv_now c) (TASKS env) taskId of
           Inl e \<Rightarrow> (Inl e, env)
         | Inr task \<Rightarrow>
             if \<not> truthy task then (Inr c_notFound, env)
             else
               (case JSON_parse (case task of None \<Rightarrow> [] | Some txt \<Rightarrow> txt) of
                  None \<Rightarrow> (Inl SyntaxError, env)
                | Some parsedTask \<Rightarrow>
                    (Inr (c_json (JObj (obj_assign (spread parsedTask)
                            [(''links'', JObj
                               [(''self'', JStr (url c)),
                                (''comments'', JStr (url c @ ''/comments''))])])) 200),
                     env)))"

subsection \<open>PUT /api/v1/tasks/:id (lines 159 to 177)\<close>

definition updatedTask :: "json \<Rightarrow> obj \<Rightarrow> ctx \<Rightarrow> obj" where
  "updatedTask parsed updatedFields c =
     obj_assign (obj_assign (spread parsed) updatedFields)
       [(''updatedAt'', JNum (Date_now c)),
        (''links'', JObj
           [(''self'', JStr (url c)),
            (''comments'', JStr (url c @ ''/comments''))])]"

definition update_task :: "obj \<Rightarrow> ctx \<Rightarrow> env \<Rightarrow> outcome" where
  "update_task updatedFields c env =
     (let taskId = param_id c
      in case kv_get (kv_now c) (TASKS env) taskId of
           Inl e \<Rightarrow> (Inl e, env)
         | Inr task \<Rightarrow>
             if \<not> truthy task then (Inr c_notFound, env)
             else
               (case JSON_parse (case task of None \<Rightarrow> [] | Some txt \<Rightarrow> txt) of
                  None \<Rightarrow> (Inl SyntaxError, env)
                | Some parsed \<Rightarrow>
                    (case kv_put (kv_now c) (TASKS env) taskId
                            (JSON_stringify (JObj (updatedTask parsed updatedFields c))) None None of
                       Inl e \<Rightarrow> (Inl e, env)
                     | Inr tasks \<Rightarrow>
                         (Inr (c_json (JObj (updatedTask parsed updatedFields c)) 200),
                          env\<lparr>TASKS := tasks\<rparr>))))"

definition put_task :: "ctx \<Rightarrow> env \<Rightarrow> outcome" where
  "put_task = zValidator (partial taskSchema) update_task"

subsection \<open>DELETE /api/v1/tasks/:id (lines 179 to 183)\<close>

definition delete_task :: "ctx \<Rightarrow> env \<Rightarrow> outcome" where
  "delete_task c env =
     (let taskId = param_id c
      in case kv_delete (TASKS env) taskId of
           Inl e \<Rightarrow> (Inl e, env)
         | Inr tasks \<Rightarrow>
             (Inr (c_json (JObj [(''message'', JStr ''Task deleted successfully'')]) 200),
              env\<lparr>TASKS := tasks\<rparr>))"

section \<open>Comment routes\<close>

subsection \<open>POST /api/v1/tasks/:id/comments (lines 186 to 207)\<close>

text \<open>
  \<^verbatim>\<open>c.req.url.replace('/comments', '')\<close> removes the first occurrence of the pattern.
\<close>

fun replace_first :: "string \<Rightarrow> string \<Rightarrow> string" where
  "replace_first pat [] = []"
| "replace_first pat (x # xs) =
     (if take (length pat) (x # xs) = pat then drop (length pat) (x # xs)
      else x # replace_first pat xs)"

definition new_comment :: "obj \<Rightarrow> ctx \<Rightarrow> obj" where
  "new_comment data c =
     (let taskId = param_id c;
          content = map_of data ''content'';
          commentId = nanoid c
      in obj_lit
           [(''id'', Some (JStr commentId)),
            (''taskId'', Some (JStr taskId)),
            (''content'', content),
            (''createdAt'', Some (JNum (Date_now c))),
            (''updatedAt'', Some (JNum (Date_now c))),
            (''links'', Some (JObj
               [(''self'', JStr (url c @ ''/'' @ commentId)),
                (''task'', JStr (replace_first ''/comments'' (url c)))]))])"

definition create_comment :: "obj \<Rightarrow> ctx \<Rightarrow> env \<Rightarrow> outcome" where
  "create_comment data c env =
     (let taskId = param_id c
      in case kv_get (kv_now c) (TASKS env) taskId of
           Inl e \<Rightarrow> (Inl e, env)
         | Inr task \<Rightarrow>
             if \<not> truthy task then (Inr c_notFound, env)
             else
               (let commentId = nanoid c;
                    comment = new_comment data c
                in case kv_put (kv_now c) (COMMENTS env) (taskId @ '':'' @ commentId)
                          (JSON_stringify (JObj comment)) None None of
                     Inl e \<Rightarrow> (Inl e, env)
                   | Inr comments \<Rightarrow>
                       (Inr (c_json (JObj comment) 201), env\<lparr>COMMENTS := comments\<rparr>)))"

definition post_comment :: "ctx \<Rightarrow> env \<Rightarrow> outcome" where
  "post_comment = zValidator commentSchema create_comment"

section \<open>The task store as the data model describes it\<close>




section \<open>Example requests\<close>

text \<open>Concrete requests and stores, used to run the theorems below on real inputs.\<close>

definition ex_ip :: string where
  "ex_ip = ''203.0.113.7''"

definition ex_ctx :: ctx where
  "ex_ctx = \<lparr>cf_connecting_ip = Some ex_ip, url = ''https://api.example.com/api/v1/tasks/t1'',
     path = ''/api/v1/tasks/t1'', param_id = ''t1'', query = [], body = JNull,
     now = 1621500030000, nanoid = ''V1StGXR8_Z5jdHi6B-myT''\<rparr>"

definition ex_counter :: "string \<Rightarrow> int \<Rightarrow> string \<times> kv_entry" where
  "ex_counter txt expires =
     (''rate_limit:203.0.113.7'', \<lparr>kv_text = txt, kv_expiration = Some expires, kv_metadata = None\<rparr>)"

definition ex_env_empty :: env where
  "ex_env_empty = \<lparr>TASKS = [], COMMENTS = []\<rparr>"

definition ex_env_full :: env where
  "ex_env_full = \<lparr>TASKS = [ex_counter ''100'' 1621500060], COMMENTS = []\<rparr>"

definition ex_comment_ctx :: ctx where
  "ex_comment_ctx = ex_ctx\<lparr>url := ''https://api.example.com/api/v1/tasks/t1/comments'',
     path := ''/api/v1/tasks/t1/comments'', body := JObj [(''content'', JStr ''hello'')]\<rparr>"

definition ex_post_ctx :: ctx where
  "ex_post_ctx = ex_ctx\<lparr>url := ''https://api.example.com/api/v1/tasks'',
     path := ''/api/v1/tasks'', param_id := [], body := JObj [(''title'', JStr ''Buy milk'')]\<rparr>"

definition ex_bad_ctx :: ctx where
  "ex_bad_ctx = ex_post_ctx\<lparr>body := JObj [(''title'', JStr [])]\<rparr>"

definition ex_created :: json where
  "ex_created = JObj
     [(''id'', JStr ''V1StGXR8_Z5jdHi6B-myT''),
      (''title'', JStr ''Buy milk''),
      (''status'', JStr ''todo''),
      (''priority'', JStr ''medium''),
      (''labels'', JArr []),
      (''createdAt'', JNum 1621500030000),
      (''updatedAt'', JNum 1621500030000),
      (''links'', JObj
         [(''self'', JStr ''https://api.example.com/api/v1/tasks/V1StGXR8_Z5jdHi6B-myT''),
          (''comments'', JStr ''https://api.example.com/api/v1/tasks/V1StGXR8_Z5jdHi6B-myT/comments'')])]"

definition ex_task :: "string \<Rightarrow> string \<Rightarrow> string \<Rightarrow> string \<Rightarrow> json" where
  "ex_task i title st pr = JObj
     [(''id'', JStr i),
      (''title'', JStr title),
      (''status'', JStr st),
      (''priority'', JStr pr),
      (''labels'', JArr []),
      (''createdAt'', JNum 1621500000000),
      (''updatedAt'', JNum 1621500000000),
      (''links'', JObj
         [(''self'', JStr (''https://api.example.com/api/v1/tasks/'' @ i)),
          (''comments'', JStr (''https://api.example.com/api/v1/tasks/'' @ i @ ''/comments''))])]"

definition ex_t1 :: json where
  "ex_t1 = ex_task ''t1'' ''Buy milk'' ''todo'' ''medium''"

definition ex_t2 :: json where
  "ex_t2 = ex_task ''t2'' ''Write report'' ''done'' ''high''"

definition ex_t3 :: json where
  "ex_t3 = ex_task ''t3'' ''Call Bob'' ''done'' ''low''"

definition ex_entry :: "json \<Rightarrow> kv_entry" where
  "ex_entry v = \<lparr>kv_text = JSON_stringify v, kv_expiration = None, kv_metadata = Some v\<rparr>"

definition ex_env_tasks :: env where
  "ex_env_tasks =
     \<lparr>TASKS = [(''t1'', ex_entry ex_t1), (''t2'', ex_entry ex_t2), (''t3'', ex_entry ex_t3),
               ex_counter ''1'' 1621500090],
      COMMENTS = []\<rparr>"

definition ex_list_ctx :: ctx where
  "ex_list_ctx = ex_ctx\<lparr>url := ''https://api.example.com/api/v1/tasks?status=done'',
     path := ''/api/v1/tasks'', param_id := [], query := [(''status'', ''done'')]\<rparr>"

definition ex_put_ctx :: ctx where
  "ex_put_ctx = ex_ctx\<lparr>body := JObj
     [(''status'', JStr ''done''), (''id'', JStr ''other''), (''createdAt'', JNum 0)]\<rparr>"

definition ex_updated :: "int \<Rightarrow> json" where
  "ex_updated t = JObj
     [(''id'', JStr ''t1''),
      (''title'', JStr ''Buy milk''),
      (''status'', JStr ''done''),
      (''priority'', JStr ''medium''),
      (''labels'', JArr []),
      (''createdAt'', JNum 1621500000000),
      (''updatedAt'', JNum t),
      (''links'', JObj
         [(''self'', JStr ''https://api.example.com/api/v1/tasks/t1''),
          (''comments'', JStr ''https://api.example.com/api/v1/tasks/t1/comments'')])]"

definition ex_listed :: "string \<Rightarrow> string \<Rightarrow> string \<Rightarrow> string \<Rightarrow> obj" where
  "ex_listed i title st pr =
     [(''id'', JStr i),
      (''title'', JStr title),
      (''status'', JStr st),
      (''priority'', JStr pr),
      (''labels'', JArr []),
      (''createdAt'', JNum 1621500000000),
      (''updatedAt'', JNum 1621500000000),
      (''links'', JObj
         [(''self'', JStr (''/api/v1/tasks/'' @ i)),
          (''comments'', JStr (''/api/v1/tasks/'' @ i @ ''/comments''))])]"

definition ex_scan_ctx :: ctx where
  "ex_scan_ctx = ex_ctx\<lparr>url := ''https://api.example.com/api/v1/tasks'',
     path := ''/api/v1/tasks'', param_id := [], query := []\<rparr>"


text \<open>
  A request for the key of the client's own counter, and 101 of them half a second
  apart; a request for an id of 513 bytes, a request whose URL has a query of 400
  characters, and a request without the header \<^verbatim>\<open>CF-Connecting-IP\<close>.
\<close>

definition ex_reset_ctx :: ctx where
  "ex_reset_ctx = ex_ctx\<lparr>url := ''https://api.example.com/api/v1/tasks/rate_limit:203.0.113.7'',
     path := ''/api/v1/tasks/rate_limit:203.0.113.7'', param_id := ''rate_limit:203.0.113.7''\<rparr>"

definition ex_reset_requests :: "ctx list" where
  "ex_reset_requests = map (\<lambda>i. ex_reset_ctx\<lparr>now := 1621500030000 + 500 * int i\<rparr>) [0..<101]"

definition ex_own_comment_ctx :: ctx where
  "ex_own_comment_ctx = ex_ctx\<lparr>
     url := ''https://api.example.com/api/v1/tasks/rate_limit:203.0.113.7/comments'',
     path := ''/api/v1/tasks/rate_limit:203.0.113.7/comments'',
     param_id := ''rate_limit:203.0.113.7'', body := JObj [(''content'', JStr ''hello'')]\<rparr>"

definition ex_own_comment :: json where
  "ex_own_comment = JObj
     [(''id'', JStr ''V1StGXR8_Z5jdHi6B-myT''),
      (''taskId'', JStr ''rate_limit:203.0.113.7''),
      (''content'', JStr ''hello''),
      (''createdAt'', JNum 1621500030000),
      (''updatedAt'', JNum 1621500030000),
      (''links'', JObj
         [(''self'', JStr ''https://api.example.com/api/v1/tasks/rate_limit:203.0.113.7/comments/V1StGXR8_Z5jdHi6B-myT''),
          (''task'', JStr ''https://api.example.com/api/v1/tasks/rate_limit:203.0.113.7'')])]"

definition ex_long_id :: string where
  "ex_long_id = replicate 513 (CHR ''a'')"

definition ex_long_ctx :: ctx where
  "ex_long_ctx = ex_ctx\<lparr>url := ''https://api.example.com/api/v1/tasks/'' @ ex_long_id,
     path := ''/api/v1/tasks/'' @ ex_long_id, param_id := ex_long_id\<rparr>"

definition ex_long_comment_ctx :: ctx where
  "ex_long_comment_ctx = ex_ctx\<lparr>url := ''https://api.example.com/api/v1/tasks/'' @ ex_long_id @ ''/comments'',
     path := ''/api/v1/tasks/'' @ ex_long_id @ ''/comments'', param_id := ex_long_id,
     body := JObj [(''content'', JStr ''hello'')]\<rparr>"

definition ex_long_url_ctx :: ctx where
  "ex_long_url_ctx = ex_post_ctx\<lparr>
     url := ''https://api.example.com/api/v1/tasks?q='' @ replicate 400 (CHR ''a''),
     query := [(''q'', replicate 400 (CHR ''a''))]\<rparr>"

definition ex_long_task :: json where
  "ex_long_task = JObj
     [(''id'', JStr ''V1StGXR8_Z5jdHi6B-myT''),
      (''title'', JStr ''Buy milk''),
      (''status'', JStr ''todo''),
      (''priority'', JStr ''medium''),
      (''labels'', JArr []),
      (''createdAt'', JNum 1621500030000),
      (''updatedAt'', JNum 1621500030000),
      (''links'', JObj
         [(''self'', JStr (''https://api.example.com/api/v1/tasks?q='' @ replicate 400 (CHR ''a'')
             @ ''/V1StGXR8_Z5jdHi6B-myT'')),
          (''comments'', JStr (''https://api.example.com/api/v1/tasks?q='' @ replicate 400 (CHR ''a'')
             @ ''/V1StGXR8_Z5jdHi6B-myT/comments''))])]"

definition ex_anon_ctx :: ctx where
  "ex_anon_ctx = ex_ctx\<lparr>cf_connecting_ip := None\<rparr>"

definition ex_anon_list_ctx :: ctx where
  "ex_anon_list_ctx = ex_scan_ctx\<lparr>cf_connecting_ip := None, now := 1621500031000\<rparr>"

definition ex_anon_counter :: "string \<Rightarrow> int \<Rightarrow> string \<times> kv_entry" where
  "ex_anon_counter txt expires =
     (''rate_limit:undefined'', \<lparr>kv_text = txt, kv_expiration = Some expires, kv_metadata = None\<rparr>)"

definition ok_deleted :: response where
  "ok_deleted = \<lparr>status = 200, payload = Json (JObj [(''message'', JStr ''Task deleted successfully'')])\<rparr>"

section \<open>Evaluation\<close>

text \<open>
  Rules that let the simplifier run the definitions on concrete text: the recursion of
  \<open>digits\<close> on a numeral, and one step of the JSON reader when its bound is a numeral.
\<close>

lemma digits_numeral:
  "digits (numeral k) =
     (if (numeral k :: nat) < 10 then [digit_char (numeral k)]
      else digits (numeral k div 10) @ [digit_char (numeral k mod 10)])"
  by (subst digits.simps) simp

lemma digits_0: "digits 0 = ''0''"
  by (subst digits.simps) (simp add: digit_char_def)

lemma digits_1: "digits 1 = ''1''"
  by (subst digits.simps) (simp add: digit_char_def)

lemma digits_Suc_0: "digits (Suc 0) = ''1''"
  by (subst digits.simps) (simp add: digit_char_def)

lemmas parse_fuel_numeral =
  parse_value.simps(2)[of "pred_numeral k" for k, folded numeral_eq_Suc]
  parse_elems.simps(2)[of "pred_numeral k" for k, folded numeral_eq_Suc]
  parse_members.simps(2)[of "pred_numeral k" for k, folded numeral_eq_Suc]

lemmas js_eval =
  JSON_parse_def skip_ws_def is_json_ws_def parse_number_def is_digit_def digit_of_def
  digits_value_def unescape_def hex4_def obj_assign_def Let_def quote_def escape_char_def
  Number_toString_def digit_char_def parseInt_def is_space_def
  parse_fuel_numeral digits_numeral digits_0 digits_1 digits_Suc_0

lemmas ex_defs =
  ex_ip_def ex_ctx_def ex_counter_def ex_env_empty_def ex_env_full_def ex_comment_ctx_def
  ex_post_ctx_def ex_bad_ctx_def ex_created_def ex_task_def ex_t1_def ex_t2_def ex_t3_def
  ex_entry_def ex_env_tasks_def ex_list_ctx_def ex_put_ctx_def ex_updated_def ex_listed_def ex_scan_ctx_def
  ex_reset_ctx_def ex_own_comment_ctx_def ex_anon_ctx_def ex_anon_list_ctx_def ex_anon_counter_def
  ok_deleted_def

lemmas route_defs =
  kv_get_def kv_put_def kv_delete_def kv_read_def kv_write_def kv_remove_def kv_live_def
  kv_key_ok_def kv_ttl_ok_def kv_metadata_ok_def utf8_length_def kv_now_def Date_now_def
  rate_limit_key_def header_text_def read_count_def num_ge_def num_gt_def num_add_def num_mul_def
  c_json_def c_text_def c_notFound_def too_many_def truthy_def onError_def api_v1_def
  rateLimiter_def

section \<open>Numbers and their text\<close>

text \<open>
  The decimal text of a natural number reads back as that number: \<^verbatim>\<open>parseInt\<close> undoes
  \<^verbatim>\<open>toString\<close> on the counters the rate limiter writes.
\<close>

lemma decimal_cases:
  "c \<in> set ''0123456789'' \<Longrightarrow>
     c = CHR ''0'' \<or> c = CHR ''1'' \<or> c = CHR ''2'' \<or> c = CHR ''3'' \<or> c = CHR ''4'' \<or>
     c = CHR ''5'' \<or> c = CHR ''6'' \<or> c = CHR ''7'' \<or> c = CHR ''8'' \<or> c = CHR ''9''"
  by simp

lemma decimal_is_digit: "c \<in> set ''0123456789'' \<Longrightarrow> is_digit 10 c"
  by (drule decimal_cases, elim disjE) (simp_all add: is_digit_def digit_of_def)

lemma decimal_not_space: "c \<in> set ''0123456789'' \<Longrightarrow> \<not> is_space c"
  by (drule decimal_cases, elim disjE) (simp_all add: is_space_def)

lemma decimal_not_other:
  "c \<in> set ''0123456789'' \<Longrightarrow> c \<notin> set ''-+xX''"
  by (drule decimal_cases, elim disjE) simp_all


lemma below_ten: "d < 10 \<Longrightarrow> d \<in> {0, 1, 2, 3, 4, 5, 6, 7, 8, 9::nat}"
  by auto

lemma digit_char_set: "d < 10 \<Longrightarrow> digit_char d \<in> set ''0123456789''"
  using below_ten [of d] by (auto simp: digit_char_def)

lemma digit_of_digit_char: "d < 10 \<Longrightarrow> digit_of (digit_char d) = Some d"
  using below_ten [of d] by (auto simp: digit_char_def digit_of_def)

lemma digits_decimal: "set (digits n) \<subseteq> set ''0123456789''"
proof (induction n rule: digits.induct)
  case (1 n)
  show ?case
  proof (cases "n < 10")
    case True
    then have "digits n = [digit_char n]"
      by (subst digits.simps) simp
    then show ?thesis
      using digit_char_set [OF True] by simp
  next
    case False
    then have "digits n = digits (n div 10) @ [digit_char (n mod 10)]"
      by (subst digits.simps) simp
    moreover have "digit_char (n mod 10) \<in> set ''0123456789''"
      by (rule digit_char_set) simp
    ultimately show ?thesis
      using 1 [OF False] by simp
  qed
qed

lemma digits_nonempty: "digits n \<noteq> []"
  by (subst digits.simps) simp

lemma digits_value_snoc:
  "digits_value R (Z @ [c]) = digits_value R Z * R + (case digit_of c of None \<Rightarrow> 0 | Some d \<Rightarrow> d)"
  by (simp add: digits_value_def)

lemma digits_value_digits: "digits_value 10 (digits n) = n"
proof (induction n rule: digits.induct)
  case (1 n)
  show ?case
  proof (cases "n < 10")
    case True
    then have "digits n = [digit_char n]"
      by (subst digits.simps) simp
    then show ?thesis
      using True by (simp add: digits_value_def digit_of_digit_char)
  next
    case False
    then have "digits n = digits (n div 10) @ [digit_char (n mod 10)]"
      by (subst digits.simps) simp
    then have "digits_value 10 (digits n) = digits_value 10 (digits (n div 10)) * 10 + n mod 10"
      by (simp add: digits_value_snoc digit_of_digit_char)
    with 1 [OF False] show ?thesis by simp
  qed
qed

lemma parseInt_plain:
  assumes "\<not> is_space c" "c \<noteq> CHR ''-''" "c \<noteq> CHR ''+''"
    and "\<not> (take 2 (c # cs) = ''0x'' \<or> take 2 (c # cs) = ''0X'')"
    and "takeWhile (is_digit 10) (c # cs) = c # cs"
  shows "parseInt (c # cs) = Some (int (digits_value 10 (c # cs)))"
proof -
  have S1: "dropWhile is_space (c # cs) = c # cs"
    using assms(1) by simp
  show ?thesis
    unfolding parseInt_def Let_def S1 list.case
    by (simp only: assms if_False if_True simp_thms list.simps mult_1)
qed

lemma parseInt_digits: "parseInt (digits n) = Some (int n)"
proof -
  obtain c cs where ds: "digits n = c # cs"
    using digits_nonempty [of n] by (cases "digits n") simp_all
  have all: "x \<in> set ''0123456789''" if "x \<in> set (c # cs)" for x
    using digits_decimal [of n] that unfolding ds by (rule subsetD)
  have c: "c \<in> set ''0123456789''"
    by (rule all) simp
  have nohex: "\<not> (take 2 (c # cs) = ''0x'' \<or> take 2 (c # cs) = ''0X'')"
  proof (cases cs)
    case Nil
    then show ?thesis by simp
  next
    case (Cons d ds')
    have "d \<in> set ''0123456789''"
      by (rule all) (simp add: Cons)
    then have "d \<notin> set ''-+xX''"
      by (rule decimal_not_other)
    then have "d \<noteq> CHR ''x'' \<and> d \<noteq> CHR ''X''"
      by simp
    then show ?thesis
      unfolding Cons by simp
  qed
  have "c \<notin> set ''-+xX''"
    using c by (rule decimal_not_other)
  then have sign: "c \<noteq> CHR ''-''" "c \<noteq> CHR ''+''"
    by simp_all
  have Z: "takeWhile (is_digit 10) (c # cs) = c # cs"
    unfolding takeWhile_eq_all_conv using all decimal_is_digit by blast
  have "parseInt (c # cs) = Some (int (digits_value 10 (c # cs)))"
    using decimal_not_space [OF c] sign nohex Z by (rule parseInt_plain)
  then show ?thesis
    using digits_value_digits [of n] unfolding ds by simp
qed

lemma parseInt_toString: "0 \<le> n \<Longrightarrow> parseInt (Number_toString (Some n)) = Some n"
  by (simp add: Number_toString_def parseInt_digits)

lemma toString_nonempty: "Number_toString x \<noteq> []"
  by (cases x) (simp_all add: Number_toString_def digits_nonempty)

section \<open>The store and the rate limiter\<close>

lemma kv_get_ok: "kv_key_ok k \<Longrightarrow> kv_get t ns k = Inr (kv_read t ns k)"
  by (simp add: kv_get_def)

lemma kv_put_plain: "kv_key_ok k \<Longrightarrow> kv_put t ns k v None None = Inr (kv_write t ns k v None None)"
  by (simp add: kv_put_def kv_ttl_ok_def kv_metadata_ok_def)

lemma kv_put_counter:
  "kv_key_ok k \<Longrightarrow> kv_put t ns k v (Some 60) None = Inr (kv_write t ns k v (Some 60) None)"
  by (simp add: kv_put_def kv_ttl_ok_def kv_metadata_ok_def)

lemma kv_read_expired:
  "map_of ns k = Some e \<Longrightarrow> kv_expiration e = Some x \<Longrightarrow> x \<le> t \<Longrightarrow> kv_read t ns k = None"
  by (simp add: kv_read_def kv_live_def)

lemma kv_read_write:
  "kv_read t' (kv_write t ns k v ttl m) k =
     (if (case ttl of None \<Rightarrow> True | Some d \<Rightarrow> t' < t + d) then Some v else None)"
  by (cases ttl) (simp_all add: kv_read_def kv_write_def kv_live_def update_conv')

lemma kv_read_write_other:
  "k' \<noteq> k \<Longrightarrow> kv_read t' (kv_write t ns k v ttl m) k' = kv_read t' ns k'"
  by (simp add: kv_read_def kv_write_def update_conv')

text \<open>
  The run of the rate limiter when the store takes its key: the counter is read, a
  count of 100 or more is answered 429 with the stores as they were, and a smaller one
  is written back incremented, for 60 seconds, before the rest of the chain runs. A key
  that the store refuses makes the first call throw.
\<close>

lemma rateLimiter_run:
  assumes "kv_key_ok (rate_limit_key (cf_connecting_ip c))"
  shows "rateLimiter c handler env =
    (if num_ge (read_count (kv_read (kv_now c) (TASKS env) (rate_limit_key (cf_connecting_ip c)))) 100
     then (Inr too_many, env)
     else handler (env\<lparr>TASKS := kv_write (kv_now c) (TASKS env) (rate_limit_key (cf_connecting_ip c))
            (Number_toString (num_add (read_count (kv_read (kv_now c) (TASKS env)
               (rate_limit_key (cf_connecting_ip c)))) 1)) (Some 60) None\<rparr>))"
  using assms by (simp add: rateLimiter_def Let_def kv_get_ok kv_put_counter)

lemma rateLimiter_refused:
  "\<not> kv_key_ok (rate_limit_key (cf_connecting_ip c)) \<Longrightarrow> rateLimiter c handler env = (Inl StoreError, env)"
  by (simp add: rateLimiter_def Let_def kv_get_def)

lemma rateLimiter_reject:
  assumes "kv_get (kv_now c) (TASKS env) (rate_limit_key (cf_connecting_ip c)) = Inr stored"
    and "num_ge (read_count stored) 100"
  shows "rateLimiter c handler env = (Inr too_many, env)"
  using assms by (simp add: rateLimiter_def Let_def)

lemma rateLimiter_accept:
  assumes "kv_get (kv_now c) (TASKS env) (rate_limit_key (cf_connecting_ip c)) = Inr stored"
    and "\<not> num_ge (read_count stored) 100"
  shows "rateLimiter c handler env =
       handler (env\<lparr>TASKS := kv_write (kv_now c) (TASKS env) (rate_limit_key (cf_connecting_ip c))
         (Number_toString (num_add (read_count stored) 1)) (Some 60) None\<rparr>)"
proof -
  have "kv_key_ok (rate_limit_key (cf_connecting_ip c))"
    using assms(1) by (simp add: kv_get_def split: if_splits)
  then show ?thesis
    using assms by (simp add: rateLimiter_def Let_def kv_put_counter)
qed

lemma rateLimiter_expired:
  assumes "kv_key_ok (rate_limit_key (cf_connecting_ip c))"
    and "map_of (TASKS env) (rate_limit_key (cf_connecting_ip c)) = Some e"
    and "kv_expiration e = Some x" and "x \<le> kv_now c"
  shows "rateLimiter c handler env =
       handler (env\<lparr>TASKS := kv_write (kv_now c) (TASKS env) (rate_limit_key (cf_connecting_ip c))
         ''1'' (Some 60) None\<rparr>)"
proof -
  have "kv_read (kv_now c) (TASKS env) (rate_limit_key (cf_connecting_ip c)) = None"
    using assms(2-4) by (rule kv_read_expired)
  then show ?thesis
    using assms(1)
    by (simp add: rateLimiter_run read_count_def num_ge_def num_add_def Number_toString_def digits_Suc_0)
qed

section \<open>A hundred requests in one window\<close>

text \<open>
  The counter counts: requests from one address that arrive within 60 seconds of a
  first one, served one after the other by a route that leaves the counter's entry
  alone, raise the counter by one each, and every write moves the expiration 60 seconds
  past the request. After a hundred of them the next request in the window is answered
  429 and changes nothing. The routes of the program do not all leave the entry alone:
  the counter is in \<^verbatim>\<open>TASKS\<close>, where \<^verbatim>\<open>DELETE\<close> and \<^verbatim>\<open>PUT /api/v1/tasks/:id\<close> reach
  it under its key.
\<close>

lemma api_v1_accept:
  assumes "kv_key_ok (rate_limit_key (cf_connecting_ip c))"
    and "\<not> num_ge (read_count (kv_read (kv_now c) (TASKS env) (rate_limit_key (cf_connecting_ip c)))) 100"
  shows "api_v1 route c env =
    onError (route c (env\<lparr>TASKS := kv_write (kv_now c) (TASKS env) (rate_limit_key (cf_connecting_ip c))
         (Number_toString (num_add (read_count (kv_read (kv_now c) (TASKS env)
            (rate_limit_key (cf_connecting_ip c)))) 1)) (Some 60) None\<rparr>))"
  unfolding api_v1_def rateLimiter_run [OF assms(1)] using assms(2) by simp

lemma snd_onError: "snd (onError r) = snd r"
  by (simp add: onError_def split: sum.splits)

lemma counter_step:
  assumes keep: "\<And>e. map_of (TASKS (snd (route c e))) key = map_of (TASKS e) key"
    and key: "rate_limit_key (cf_connecting_ip c) = key"
    and ok: "kv_key_ok key"
    and win: "t0 \<le> kv_now c" "kv_now c < t0 + 60"
    and k: "k < 100"
    and inv: "(k = 0 \<and> map_of (TASKS env) key = None) \<or>
       (\<exists>x. map_of (TASKS env) key =
          Some \<lparr>kv_text = digits k, kv_expiration = Some x, kv_metadata = None\<rparr> \<and> t0 + 60 \<le> x)"
  shows "\<exists>x. map_of (TASKS (snd (api_v1 route c env))) key =
          Some \<lparr>kv_text = digits (Suc k), kv_expiration = Some x, kv_metadata = None\<rparr> \<and> t0 + 60 \<le> x"
proof -
  have count: "read_count (kv_read (kv_now c) (TASKS env) key) = Some (int k)"
  proof -
    from inv show ?thesis
    proof
      assume "k = 0 \<and> map_of (TASKS env) key = None"
      then show ?thesis
        by (simp add: kv_read_def read_count_def)
    next
      assume "\<exists>x. map_of (TASKS env) key =
          Some \<lparr>kv_text = digits k, kv_expiration = Some x, kv_metadata = None\<rparr> \<and> t0 + 60 \<le> x"
      then obtain x where "map_of (TASKS env) key =
          Some \<lparr>kv_text = digits k, kv_expiration = Some x, kv_metadata = None\<rparr>" and "t0 + 60 \<le> x"
        by blast
      then have "kv_read (kv_now c) (TASKS env) key = Some (digits k)"
        using win(2) by (simp add: kv_read_def kv_live_def)
      then show ?thesis
        by (simp add: read_count_def digits_nonempty parseInt_digits)
    qed
  qed
  then have acc: "\<not> num_ge (read_count (kv_read (kv_now c) (TASKS env)
      (rate_limit_key (cf_connecting_ip c)))) 100"
    using k by (simp add: key num_ge_def)
  have ok': "kv_key_ok (rate_limit_key (cf_connecting_ip c))"
    using ok key by simp
  have text_eq: "Number_toString (num_add (Some (int k)) 1) = digits (Suc k)"
  proof -
    have "nat (int k + 1) = Suc k"
      by simp
    then show ?thesis
      by (simp add: Number_toString_def num_add_def)
  qed
  have "map_of (TASKS (snd (api_v1 route c env))) key =
      Some \<lparr>kv_text = digits (Suc k), kv_expiration = Some (kv_now c + 60), kv_metadata = None\<rparr>"
    unfolding api_v1_accept [OF ok' acc] snd_onError keep
    by (simp add: key count text_eq kv_write_def update_conv')
  then show ?thesis
    using win(1) by simp
qed

lemma counter_after_requests:
  assumes keep: "\<And>c e. c \<in> set cs \<Longrightarrow> map_of (TASKS (snd (route c e))) key = map_of (TASKS e) key"
    and key: "\<And>c. c \<in> set cs \<Longrightarrow> rate_limit_key (cf_connecting_ip c) = key"
    and ok: "kv_key_ok key"
    and win: "\<And>c. c \<in> set cs \<Longrightarrow> t0 \<le> kv_now c \<and> kv_now c < t0 + 60"
    and bound: "k + length cs \<le> 100"
    and inv: "(k = 0 \<and> map_of (TASKS env) key = None) \<or>
       (\<exists>x. map_of (TASKS env) key =
          Some \<lparr>kv_text = digits k, kv_expiration = Some x, kv_metadata = None\<rparr> \<and> t0 + 60 \<le> x)"
    and "cs \<noteq> []"
  shows "\<exists>x. map_of (TASKS (serve route cs env)) key =
          Some \<lparr>kv_text = digits (k + length cs), kv_expiration = Some x, kv_metadata = None\<rparr> \<and>
          t0 + 60 \<le> x"
  using assms
proof (induction cs arbitrary: k env)
  case Nil
  then show ?case by simp
next
  case (Cons c cs)
  have step: "\<exists>x. map_of (TASKS (snd (api_v1 route c env))) key =
          Some \<lparr>kv_text = digits (Suc k), kv_expiration = Some x, kv_metadata = None\<rparr> \<and> t0 + 60 \<le> x"
  proof (rule counter_step)
    show "map_of (TASKS (snd (route c e))) key = map_of (TASKS e) key" for e
      by (rule Cons.prems(1)) simp
    show "rate_limit_key (cf_connecting_ip c) = key"
      by (rule Cons.prems(2)) simp
    show "kv_key_ok key"
      by (rule Cons.prems(3))
    show "t0 \<le> kv_now c" "kv_now c < t0 + 60"
      using Cons.prems(4) [of c] by simp_all
    show "k < 100"
      using Cons.prems(5) by simp
    show "(k = 0 \<and> map_of (TASKS env) key = None) \<or>
       (\<exists>x. map_of (TASKS env) key =
          Some \<lparr>kv_text = digits k, kv_expiration = Some x, kv_metadata = None\<rparr> \<and> t0 + 60 \<le> x)"
      by (rule Cons.prems(6))
  qed
  show ?case
  proof (cases "cs = []")
    case True
    with step show ?thesis by simp
  next
    case False
    have "\<exists>x. map_of (TASKS (serve route cs (snd (api_v1 route c env)))) key =
          Some \<lparr>kv_text = digits (Suc k + length cs), kv_expiration = Some x, kv_metadata = None\<rparr> \<and>
          t0 + 60 \<le> x"
    proof (rule Cons.IH)
      show "map_of (TASKS (snd (route c' e))) key = map_of (TASKS e) key" if "c' \<in> set cs" for c' e
        using that by (intro Cons.prems(1)) simp
      show "rate_limit_key (cf_connecting_ip c') = key" if "c' \<in> set cs" for c'
        using that by (intro Cons.prems(2)) simp
      show "kv_key_ok key"
        by (rule Cons.prems(3))
      show "t0 \<le> kv_now c' \<and> kv_now c' < t0 + 60" if "c' \<in> set cs" for c'
        using that by (intro Cons.prems(4)) simp
      show "Suc k + length cs \<le> 100"
        using Cons.prems(5) by simp
      show "(Suc k = 0 \<and> map_of (TASKS (snd (api_v1 route c env))) key = None) \<or>
       (\<exists>x. map_of (TASKS (snd (api_v1 route c env))) key =
          Some \<lparr>kv_text = digits (Suc k), kv_expiration = Some x, kv_metadata = None\<rparr> \<and> t0 + 60 \<le> x)"
        using step by blast
      show "cs \<noteq> []"
        by (rule False)
    qed
    then show ?thesis by simp
  qed
qed

lemma hundred_accepted_then_rejected:
  assumes keep: "\<And>c e. c \<in> set cs \<Longrightarrow> map_of (TASKS (snd (route c e))) key = map_of (TASKS e) key"
    and key: "\<And>c. c \<in> set cs \<Longrightarrow> rate_limit_key (cf_connecting_ip c) = key"
    and ok: "kv_key_ok key"
    and win: "\<And>c. c \<in> set cs \<Longrightarrow> t0 \<le> kv_now c \<and> kv_now c < t0 + 60"
    and len: "length cs = 100"
    and fresh: "map_of (TASKS env) key = None"
    and next_key: "rate_limit_key (cf_connecting_ip c) = key"
    and next_win: "kv_now c < t0 + 60"
  shows "api_v1 route c (serve route cs env) = (too_many, serve route cs env)"
proof -
  have "cs \<noteq> []"
    using len by auto
  with counter_after_requests [of cs route key t0 0 env] keep key ok win len fresh
  obtain x where "map_of (TASKS (serve route cs env)) key =
          Some \<lparr>kv_text = digits 100, kv_expiration = Some x, kv_metadata = None\<rparr>" and "t0 + 60 \<le> x"
    by auto
  then have "kv_read (kv_now c) (TASKS (serve route cs env)) key = Some (digits 100)"
    using next_win by (simp add: kv_read_def kv_live_def)
  then have "num_ge (read_count (kv_read (kv_now c) (TASKS (serve route cs env))
      (rate_limit_key (cf_connecting_ip c)))) 100"
    by (simp add: next_key read_count_def digits_nonempty parseInt_digits num_ge_def)
  moreover have "kv_key_ok (rate_limit_key (cf_connecting_ip c))"
    using ok next_key by simp
  ultimately show ?thesis
    by (simp add: api_v1_def rateLimiter_run onError_def)
qed


lemma get_task_env: "snd (get_task c e) = e"
  by (simp add: get_task_def Let_def split: option.splits sum.splits)

lemma ex_key_ok: "kv_key_ok ''rate_limit:203.0.113.7''"
  by (simp add: kv_key_ok_def utf8_length_def)

lemma hundred_accepted_then_rejected_example:
  "api_v1 get_task ex_ctx (serve get_task (replicate 100 ex_ctx) ex_env_empty) =
     (too_many, serve get_task (replicate 100 ex_ctx) ex_env_empty)"
proof (rule hundred_accepted_then_rejected [where key = "''rate_limit:203.0.113.7''" and ?t0.0 = 1621500030])
  show "map_of (TASKS (snd (get_task c e))) ''rate_limit:203.0.113.7'' =
      map_of (TASKS e) ''rate_limit:203.0.113.7''" for c e
    by (simp add: get_task_env)
  show "rate_limit_key (cf_connecting_ip c) = ''rate_limit:203.0.113.7''"
    if "c \<in> set (replicate 100 ex_ctx)" for c
    using that by (simp add: ex_ctx_def ex_ip_def rate_limit_key_def header_text_def)
  show "kv_key_ok ''rate_limit:203.0.113.7''"
    by (rule ex_key_ok)
  show "1621500030 \<le> kv_now c \<and> kv_now c < 1621500030 + 60"
    if "c \<in> set (replicate 100 ex_ctx)" for c
    using that by (simp add: ex_ctx_def kv_now_def)
  show "length (replicate 100 ex_ctx) = 100"
    by simp
  show "map_of (TASKS ex_env_empty) ''rate_limit:203.0.113.7'' = None"
    by (simp add: ex_env_empty_def)
  show "rate_limit_key (cf_connecting_ip ex_ctx) = ''rate_limit:203.0.113.7''"
    by (simp add: ex_ctx_def ex_ip_def rate_limit_key_def header_text_def)
  show "kv_now ex_ctx < 1621500030 + 60"
    by (simp add: ex_ctx_def kv_now_def)
qed

section \<open>The limit of a hundred requests\<close>

lemma delete_own_counter:
  "api_v1 delete_task (ex_reset_ctx\<lparr>now := t\<rparr>) ex_env_empty = (ok_deleted, ex_env_empty)"
  by (simp add: ex_defs route_defs delete_task_def Number_toString_def digits_Suc_0)

lemma delete_own_counter_repeated:
  "responses delete_task (map (\<lambda>i. ex_reset_ctx\<lparr>now := f i\<rparr>) xs) ex_env_empty =
     replicate (length xs) ok_deleted \<and>
   serve delete_task (map (\<lambda>i. ex_reset_ctx\<lparr>now := f i\<rparr>) xs) ex_env_empty = ex_env_empty"
  by (induction xs) (simp_all add: delete_own_counter)

text \<open>
  Claim C2 says that once 100 requests from one address have been accepted within the
  window of 60 seconds, every further request from it is answered 429. The program
  does not keep this. The counter of the address is an entry of \<^verbatim>\<open>TASKS\<close> under the
  key \<^verbatim>\<open>rate_limit:{ip}\<close>, and \<^verbatim>\<open>DELETE /api/v1/tasks/:id\<close> deletes the key it is given:
  the client at 203.0.113.7 that sends \<^verbatim>\<open>DELETE /api/v1/tasks/rate_limit:203.0.113.7\<close>
  has its request counted and then removes the counter. Here 101 such requests arrive
  half a second apart, the last one 50 seconds after the first, on an empty store:
  each of them is answered 200, the 101st as well, and the store is empty after them.
\<close>

theorem rate_limit_reset_by_delete:
  "length ex_reset_requests = 101 \<and>
   map cf_connecting_ip ex_reset_requests = replicate 101 (Some ''203.0.113.7'') \<and>
   map param_id ex_reset_requests = replicate 101 ''rate_limit:203.0.113.7'' \<and>
   now (hd ex_reset_requests) = 1621500030000 \<and>
   now (last ex_reset_requests) = 1621500080000 \<and>
   responses delete_task ex_reset_requests ex_env_empty =
     replicate 101 \<lparr>status = 200, payload = Json (JObj [(''message'', JStr ''Task deleted successfully'')])\<rparr> \<and>
   serve delete_task ex_reset_requests ex_env_empty = \<lparr>TASKS = [], COMMENTS = []\<rparr>"
proof -
  have len: "length ex_reset_requests = 101"
    by (simp add: ex_reset_requests_def)
  have ips: "map cf_connecting_ip ex_reset_requests = replicate 101 (Some ''203.0.113.7'')"
    by (simp add: ex_reset_requests_def ex_defs comp_def map_replicate_const)
  have ids: "map param_id ex_reset_requests = replicate 101 ''rate_limit:203.0.113.7''"
    by (simp add: ex_reset_requests_def ex_defs comp_def map_replicate_const)
  have "[0..<101] = 0 # [1..<101]"
    by (simp add: upt_conv_Cons)
  then have first: "now (hd ex_reset_requests) = 1621500030000"
    by (simp add: ex_reset_requests_def)
  have "[0..<101] \<noteq> []"
    by simp
  then have final: "now (last ex_reset_requests) = 1621500080000"
    by (simp add: ex_reset_requests_def last_map)
  have run: "responses delete_task ex_reset_requests ex_env_empty = replicate 101 ok_deleted \<and>
      serve delete_task ex_reset_requests ex_env_empty = ex_env_empty"
    unfolding ex_reset_requests_def
    using delete_own_counter_repeated [of "\<lambda>i. 1621500030000 + 500 * int i" "[0..<101]"] by simp
  show ?thesis
    using len ips ids first final run by (simp add: ok_deleted_def ex_env_empty_def)
qed

section \<open>Requests without the address header\<close>

lemma undefined_key_ok: "kv_key_ok ''rate_limit:undefined''"
  by (simp add: kv_key_ok_def utf8_length_def)

text \<open>
  Claim C10. A request without the header \<^verbatim>\<open>CF-Connecting-IP\<close> is counted under the one
  key \<^verbatim>\<open>rate_limit:undefined\<close>, whatever else the request is. The store takes this key,
  so the rate limiter throws nothing: its run is given in full, by the count it reads
  under that key. A count of 100 or more is answered 429 and the stores stay as they
  were; a smaller count is written back incremented, for 60 seconds, and the rest of
  the chain runs on that state. The run is the run for a request whose address is the
  text \<^verbatim>\<open>undefined\<close>. The count that an accepted request writes is the count that the
  next request without the header reads, within the 60 seconds.
\<close>

theorem rateLimiter_missing_ip:
  assumes "cf_connecting_ip c = None"
  shows "rate_limit_key (cf_connecting_ip c) = ''rate_limit:undefined'' \<and>
    (\<forall>handler env. rateLimiter c handler env =
       (if num_ge (read_count (kv_read (kv_now c) (TASKS env) ''rate_limit:undefined'')) 100
        then (Inr too_many, env)
        else handler (env\<lparr>TASKS := kv_write (kv_now c) (TASKS env) ''rate_limit:undefined''
               (Number_toString (num_add (read_count (kv_read (kv_now c) (TASKS env)
                  ''rate_limit:undefined'')) 1)) (Some 60) None\<rparr>))) \<and>
    (\<forall>handler env. rateLimiter c handler env =
       rateLimiter (c\<lparr>cf_connecting_ip := Some ''undefined''\<rparr>) handler env) \<and>
    (\<forall>c' env n. cf_connecting_ip c' = None \<and> kv_now c' < kv_now c + 60 \<and>
       read_count (kv_read (kv_now c) (TASKS env) ''rate_limit:undefined'') = Some n \<and>
       0 \<le> n \<and> n < 100 \<longrightarrow>
       read_count (kv_read (kv_now c')
         (kv_write (kv_now c) (TASKS env) ''rate_limit:undefined''
            (Number_toString (num_add (read_count (kv_read (kv_now c) (TASKS env)
               ''rate_limit:undefined'')) 1)) (Some 60) None)
         (rate_limit_key (cf_connecting_ip c'))) = Some (n + 1))"
proof (intro conjI allI impI)
  show key: "rate_limit_key (cf_connecting_ip c) = ''rate_limit:undefined''"
    using assms by (simp add: rate_limit_key_def header_text_def)
  have ok: "kv_key_ok (rate_limit_key (cf_connecting_ip c))"
    using key undefined_key_ok by simp
  show "rateLimiter c handler env =
       (if num_ge (read_count (kv_read (kv_now c) (TASKS env) ''rate_limit:undefined'')) 100
        then (Inr too_many, env)
        else handler (env\<lparr>TASKS := kv_write (kv_now c) (TASKS env) ''rate_limit:undefined''
               (Number_toString (num_add (read_count (kv_read (kv_now c) (TASKS env)
                  ''rate_limit:undefined'')) 1)) (Some 60) None\<rparr>))" for handler env
    using rateLimiter_run [OF ok, of handler env] by (simp add: key)
  have key2: "rate_limit_key (cf_connecting_ip (c\<lparr>cf_connecting_ip := Some ''undefined''\<rparr>)) =
      ''rate_limit:undefined''"
    by (simp add: rate_limit_key_def header_text_def)
  have ok2: "kv_key_ok (rate_limit_key (cf_connecting_ip (c\<lparr>cf_connecting_ip := Some ''undefined''\<rparr>)))"
    unfolding key2 by (rule undefined_key_ok)
  show "rateLimiter c handler env =
       rateLimiter (c\<lparr>cf_connecting_ip := Some ''undefined''\<rparr>) handler env" for handler env
    unfolding rateLimiter_run [OF ok] rateLimiter_run [OF ok2] key key2
    by (simp add: kv_now_def)
next
  fix c' env n
  assume h: "cf_connecting_ip c' = None \<and> kv_now c' < kv_now c + 60 \<and>
       read_count (kv_read (kv_now c) (TASKS env) ''rate_limit:undefined'') = Some n \<and>
       0 \<le> n \<and> n < 100"
  then have key': "rate_limit_key (cf_connecting_ip c') = ''rate_limit:undefined''"
    by (simp add: rate_limit_key_def header_text_def)
  have "0 \<le> n + 1"
    using h by simp
  then have p: "parseInt (Number_toString (Some (n + 1))) = Some (n + 1)"
    by (rule parseInt_toString)
  have cnt: "num_add (read_count (kv_read (kv_now c) (TASKS env) ''rate_limit:undefined'')) 1 = Some (n + 1)"
    using h by (simp add: num_add_def)
  have live: "kv_now c' < kv_now c + 60"
    using h by simp
  show "read_count (kv_read (kv_now c')
         (kv_write (kv_now c) (TASKS env) ''rate_limit:undefined''
            (Number_toString (num_add (read_count (kv_read (kv_now c) (TASKS env)
               ''rate_limit:undefined'')) 1)) (Some 60) None)
         (rate_limit_key (cf_connecting_ip c'))) = Some (n + 1)"
    unfolding key' cnt kv_read_write
    using live p by (simp add: read_count_def toString_nonempty)
qed

text \<open>
  Two requests without the header, for different routes and a second apart, on an empty
  store: the first is accepted and leaves the count 1 under \<^verbatim>\<open>rate_limit:undefined\<close>, the
  second reads that count and leaves 2. With the count at 100 the request is answered
  429 and nothing is written.
\<close>

theorem rateLimiter_missing_ip_witness:
  "cf_connecting_ip ex_anon_ctx = None \<and> cf_connecting_ip ex_anon_list_ctx = None \<and>
   api_v1 get_task ex_anon_ctx ex_env_empty =
     (\<lparr>status = 404, payload = Text ''404 Not Found''\<rparr>,
      \<lparr>TASKS = [ex_anon_counter ''1'' 1621500090], COMMENTS = []\<rparr>) \<and>
   (\<forall>handler. rateLimiter ex_anon_list_ctx handler \<lparr>TASKS = [ex_anon_counter ''1'' 1621500090], COMMENTS = []\<rparr> =
      handler \<lparr>TASKS = [ex_anon_counter ''2'' 1621500091], COMMENTS = []\<rparr>) \<and>
   (\<forall>handler. rateLimiter ex_anon_list_ctx handler \<lparr>TASKS = [ex_anon_counter ''100'' 1621500090], COMMENTS = []\<rparr> =
      (Inr \<lparr>status = 429, payload = Json (JObj [(''error'', JStr ''Too many requests'')])\<rparr>,
       \<lparr>TASKS = [ex_anon_counter ''100'' 1621500090], COMMENTS = []\<rparr>))"
proof -
  have a: "cf_connecting_ip ex_anon_ctx = None" and b: "cf_connecting_ip ex_anon_list_ctx = None"
    by (simp_all add: ex_defs)
  have run1: "rateLimiter ex_anon_ctx handler env =
       (if num_ge (read_count (kv_read (kv_now ex_anon_ctx) (TASKS env) ''rate_limit:undefined'')) 100
        then (Inr too_many, env)
        else handler (env\<lparr>TASKS := kv_write (kv_now ex_anon_ctx) (TASKS env) ''rate_limit:undefined''
               (Number_toString (num_add (read_count (kv_read (kv_now ex_anon_ctx) (TASKS env)
                  ''rate_limit:undefined'')) 1)) (Some 60) None\<rparr>))" for handler env
    using rateLimiter_missing_ip [OF a] by blast
  have run2: "rateLimiter ex_anon_list_ctx handler env =
       (if num_ge (read_count (kv_read (kv_now ex_anon_list_ctx) (TASKS env) ''rate_limit:undefined'')) 100
        then (Inr too_many, env)
        else handler (env\<lparr>TASKS := kv_write (kv_now ex_anon_list_ctx) (TASKS env) ''rate_limit:undefined''
               (Number_toString (num_add (read_count (kv_read (kv_now ex_anon_list_ctx) (TASKS env)
                  ''rate_limit:undefined'')) 1)) (Some 60) None\<rparr>))" for handler env
    using rateLimiter_missing_ip [OF b] by blast
  have first: "api_v1 get_task ex_anon_ctx ex_env_empty =
     (\<lparr>status = 404, payload = Text ''404 Not Found''\<rparr>,
      \<lparr>TASKS = [ex_anon_counter ''1'' 1621500090], COMMENTS = []\<rparr>)"
    unfolding api_v1_def run1
    by (simp add: ex_defs route_defs get_task_def Number_toString_def digits_Suc_0)
  have second: "rateLimiter ex_anon_list_ctx handler \<lparr>TASKS = [ex_anon_counter ''1'' 1621500090], COMMENTS = []\<rparr> =
      handler \<lparr>TASKS = [ex_anon_counter ''2'' 1621500091], COMMENTS = []\<rparr>" for handler
    unfolding run2
    by (simp add: ex_defs route_defs js_eval)
  have full: "rateLimiter ex_anon_list_ctx handler \<lparr>TASKS = [ex_anon_counter ''100'' 1621500090], COMMENTS = []\<rparr> =
      (Inr \<lparr>status = 429, payload = Json (JObj [(''error'', JStr ''Too many requests'')])\<rparr>,
       \<lparr>TASKS = [ex_anon_counter ''100'' 1621500090], COMMENTS = []\<rparr>)" for handler
    unfolding run2
    by (simp add: ex_defs route_defs js_eval)
  show ?thesis
    using a b first second full by blast
qed

section \<open>The routes\<close>

text \<open>
  A request to a route is served by \<open>api_v1\<close>: the rate limiter, then the validator of
  the route, if it has one, then its handler, with \<^verbatim>\<open>app.onError\<close> around them. The
  rate limiter has accepted a request when its read of the counter has returned and the
  count is below 100.
\<close>

lemma api_v1_accepted:
  assumes "kv_get (kv_now c) (TASKS env) (rate_limit_key (cf_connecting_ip c)) = Inr stored"
    and "\<not> num_ge (read_count stored) 100"
  shows "api_v1 route c env =
    onError (route c (env\<lparr>TASKS := kv_write (kv_now c) (TASKS env) (rate_limit_key (cf_connecting_ip c))
       (Number_toString (num_add (read_count stored) 1)) (Some 60) None\<rparr>))"
  by (simp add: api_v1_def rateLimiter_accept [OF assms])

lemma map_of_kv_write:
  "map_of (kv_write t ns k v ttl m) k' =
     (if k' = k then Some \<lparr>kv_text = v, kv_expiration = map_option (\<lambda>d. t + d) ttl, kv_metadata = m\<rparr>
      else map_of ns k')"
  by (simp add: kv_write_def update_conv')

lemma map_of_kv_remove: "map_of (kv_remove ns k) k' = (if k' = k then None else map_of ns k')"
  by (simp add: kv_remove_def delete_conv')

lemma kv_remove_absent: "map_of ns k = None \<Longrightarrow> kv_remove ns k = ns"
  unfolding kv_remove_def by (induction ns) (auto split: if_splits)

lemma kv_remove_twice: "kv_remove (kv_remove ns k) k = kv_remove ns k"
  by (simp add: kv_remove_def delete_idem)

lemma ex_counter_first:
  "rateLimiter ex_ctx handler ex_env_empty = handler \<lparr>TASKS = [ex_counter ''1'' 1621500090], COMMENTS = []\<rparr>"
  by (simp add: ex_defs route_defs Number_toString_def digits_Suc_0)

lemma ex_counter_second:
  "rateLimiter ex_ctx handler \<lparr>TASKS = [ex_counter ''1'' 1621500090], COMMENTS = []\<rparr> =
     handler \<lparr>TASKS = [ex_counter ''2'' 1621500090], COMMENTS = []\<rparr>"
  by (simp add: ex_defs route_defs js_eval)

lemma ex_long_id_refused: "\<not> kv_key_ok ex_long_id"
  by (simp add: ex_long_id_def kv_key_ok_def utf8_length_def)

subsection \<open>DELETE /api/v1/tasks/:id\<close>

lemma delete_task_ok:
  "kv_key_ok (param_id c) \<Longrightarrow>
     delete_task c e = (Inr ok_deleted, e\<lparr>TASKS := kv_remove (TASKS e) (param_id c)\<rparr>)"
  by (simp add: delete_task_def kv_delete_def c_json_def ok_deleted_def)

lemma delete_task_refused:
  "\<not> kv_key_ok (param_id c) \<Longrightarrow> delete_task c e = (Inl StoreError, e)"
  by (simp add: delete_task_def kv_delete_def)

lemma api_v1_delete_task:
  assumes "kv_key_ok (param_id c)"
    and "kv_get (kv_now c) (TASKS env) (rate_limit_key (cf_connecting_ip c)) = Inr stored"
    and "\<not> num_ge (read_count stored) 100"
  shows "api_v1 delete_task c env =
    (ok_deleted,
     env\<lparr>TASKS := kv_remove (kv_write (kv_now c) (TASKS env) (rate_limit_key (cf_connecting_ip c))
       (Number_toString (num_add (read_count stored) 1)) (Some 60) None) (param_id c)\<rparr>)"
  unfolding api_v1_accepted [OF assms(2,3)] delete_task_ok [OF assms(1)]
  by (simp add: onError_def)

text \<open>
  Claim C8, as amended. \<^verbatim>\<open>DELETE /api/v1/tasks/:id\<close> for an id that the store takes as a
  key (at most 512 bytes), on a request that the rate limiter has accepted, is answered
  200 with the confirmation message, whether the store has the id or not. A second such
  request for the same id is answered the same. After each of them the id is not in
  \<^verbatim>\<open>TASKS\<close>, \<^verbatim>\<open>COMMENTS\<close> is as it was, and every key of \<^verbatim>\<open>TASKS\<close> other than the counter
  of the second requester holds after the second request what it held after the first:
  the counter is what the rate limiter has incremented. The handler for itself is
  idempotent: run a second time it returns the state that its first run has left, and
  on a store that does not have the id it changes nothing.
\<close>

theorem delete_task_idempotent:
  assumes "kv_key_ok (param_id c)" and "param_id c' = param_id c"
    and "kv_get (kv_now c) (TASKS env) (rate_limit_key (cf_connecting_ip c)) = Inr n"
    and "\<not> num_ge (read_count n) 100"
    and "env1 = snd (api_v1 delete_task c env)"
    and "kv_get (kv_now c') (TASKS env1) (rate_limit_key (cf_connecting_ip c')) = Inr n'"
    and "\<not> num_ge (read_count n') 100"
    and "env2 = snd (api_v1 delete_task c' env1)"
  shows "fst (api_v1 delete_task c env) = ok_deleted \<and>
    fst (api_v1 delete_task c' env1) = ok_deleted \<and>
    map_of (TASKS env1) (param_id c) = None \<and>
    map_of (TASKS env2) (param_id c) = None \<and>
    (\<forall>k. k \<noteq> rate_limit_key (cf_connecting_ip c') \<longrightarrow> map_of (TASKS env2) k = map_of (TASKS env1) k) \<and>
    COMMENTS env1 = COMMENTS env \<and> COMMENTS env2 = COMMENTS env \<and>
    (\<forall>e. delete_task c e = (Inr ok_deleted, e\<lparr>TASKS := kv_remove (TASKS e) (param_id c)\<rparr>) \<and>
         delete_task c' (snd (delete_task c e)) = delete_task c e \<and>
         (map_of (TASKS e) (param_id c) = None \<longrightarrow> delete_task c e = (Inr ok_deleted, e)))"
proof -
  have id': "kv_key_ok (param_id c')"
    using assms(1,2) by simp
  note first = api_v1_delete_task [OF assms(1,3,4)]
  note second = api_v1_delete_task [OF id' assms(6,7)]
  have e1: "TASKS env1 = kv_remove (kv_write (kv_now c) (TASKS env) (rate_limit_key (cf_connecting_ip c))
       (Number_toString (num_add (read_count n) 1)) (Some 60) None) (param_id c)"
    and c1: "COMMENTS env1 = COMMENTS env"
    unfolding assms(5) first by simp_all
  have e2: "TASKS env2 = kv_remove (kv_write (kv_now c') (TASKS env1) (rate_limit_key (cf_connecting_ip c'))
       (Number_toString (num_add (read_count n') 1)) (Some 60) None) (param_id c)"
    and c2: "COMMENTS env2 = COMMENTS env1"
    unfolding assms(8) second assms(2) by simp_all
  have gone1: "map_of (TASKS env1) (param_id c) = None"
    unfolding e1 by (simp add: map_of_kv_remove)
  have gone2: "map_of (TASKS env2) (param_id c) = None"
    unfolding e2 by (simp add: map_of_kv_remove)
  have rest: "map_of (TASKS env2) k = map_of (TASKS env1) k"
    if "k \<noteq> rate_limit_key (cf_connecting_ip c')" for k
    unfolding e2 using that gone1 by (simp add: map_of_kv_remove map_of_kv_write)
  have handler: "delete_task c e = (Inr ok_deleted, e\<lparr>TASKS := kv_remove (TASKS e) (param_id c)\<rparr>) \<and>
         delete_task c' (snd (delete_task c e)) = delete_task c e \<and>
         (map_of (TASKS e) (param_id c) = None \<longrightarrow> delete_task c e = (Inr ok_deleted, e))" for e
    by (simp add: delete_task_ok [OF assms(1)] delete_task_ok [OF id'] assms(2) kv_remove_twice
        kv_remove_absent)
  have f1: "fst (api_v1 delete_task c env) = ok_deleted"
    unfolding first by simp
  have f2: "fst (api_v1 delete_task c' env1) = ok_deleted"
    unfolding second by simp
  have c2': "COMMENTS env2 = COMMENTS env"
    using c1 c2 by simp
  show ?thesis
    using f1 f2 gone1 gone2 rest c1 c2' handler by blast
qed

text \<open>
  The task \<^verbatim>\<open>t1\<close> is deleted twice, a second apart, from a store with three tasks and
  the client's counter at 1: both requests are answered 200, \<^verbatim>\<open>t1\<close> is gone after the
  first, and the second changes the counter only. The same request on an empty store,
  which has no \<^verbatim>\<open>t1\<close>, is answered 200 as well.
\<close>

theorem delete_task_idempotent_witness:
  "kv_key_ok (param_id ex_ctx) \<and>
   api_v1 delete_task ex_ctx ex_env_tasks =
     (\<lparr>status = 200, payload = Json (JObj [(''message'', JStr ''Task deleted successfully'')])\<rparr>,
      \<lparr>TASKS = [(''t2'', ex_entry ex_t2), (''t3'', ex_entry ex_t3), ex_counter ''2'' 1621500090],
       COMMENTS = []\<rparr>) \<and>
   api_v1 delete_task (ex_ctx\<lparr>now := 1621500031000\<rparr>)
       \<lparr>TASKS = [(''t2'', ex_entry ex_t2), (''t3'', ex_entry ex_t3), ex_counter ''2'' 1621500090],
        COMMENTS = []\<rparr> =
     (\<lparr>status = 200, payload = Json (JObj [(''message'', JStr ''Task deleted successfully'')])\<rparr>,
      \<lparr>TASKS = [(''t2'', ex_entry ex_t2), (''t3'', ex_entry ex_t3), ex_counter ''3'' 1621500091],
       COMMENTS = []\<rparr>) \<and>
   api_v1 delete_task ex_ctx ex_env_empty =
     (\<lparr>status = 200, payload = Json (JObj [(''message'', JStr ''Task deleted successfully'')])\<rparr>,
      \<lparr>TASKS = [ex_counter ''1'' 1621500090], COMMENTS = []\<rparr>)"
proof -
  define env1 where "env1 =
    \<lparr>TASKS = [(''t2'', ex_entry ex_t2), (''t3'', ex_entry ex_t3), ex_counter ''2'' 1621500090],
     COMMENTS = []\<rparr>"
  define c' where "c' = ex_ctx\<lparr>now := 1621500031000\<rparr>"
  have id: "kv_key_ok (param_id ex_ctx)"
    by (simp add: ex_ctx_def kv_key_ok_def utf8_length_def)
  have same: "param_id c' = param_id ex_ctx"
    by (simp add: c'_def)
  have g1: "kv_get (kv_now ex_ctx) (TASKS ex_env_tasks) (rate_limit_key (cf_connecting_ip ex_ctx)) =
      Inr (Some ''1'')"
    by (simp add: ex_ctx_def ex_ip_def ex_env_tasks_def ex_counter_def route_defs)
  have a1: "\<not> num_ge (read_count (Some ''1'')) 100"
    by (simp add: read_count_def num_ge_def js_eval)
  have s1: "snd (api_v1 delete_task ex_ctx ex_env_tasks) = env1"
    unfolding api_v1_delete_task [OF id g1 a1]
    by (simp add: env1_def ex_ctx_def ex_ip_def ex_env_tasks_def ex_counter_def kv_now_def
        rate_limit_key_def header_text_def kv_write_def kv_remove_def read_count_def num_add_def js_eval)
  have g2: "kv_get (kv_now c') (TASKS env1) (rate_limit_key (cf_connecting_ip c')) = Inr (Some ''2'')"
    by (simp add: c'_def env1_def ex_ctx_def ex_ip_def ex_counter_def route_defs)
  have a2: "\<not> num_ge (read_count (Some ''2'')) 100"
    by (simp add: read_count_def num_ge_def js_eval)
  have s2: "snd (api_v1 delete_task c' env1) =
      \<lparr>TASKS = [(''t2'', ex_entry ex_t2), (''t3'', ex_entry ex_t3), ex_counter ''3'' 1621500091],
       COMMENTS = []\<rparr>"
    unfolding api_v1_delete_task [OF id [folded same] g2 a2]
    by (simp add: c'_def env1_def ex_ctx_def ex_ip_def ex_counter_def kv_now_def
        rate_limit_key_def header_text_def kv_write_def kv_remove_def read_count_def num_add_def js_eval)
  note w = delete_task_idempotent [OF id same g1 a1 s1 [symmetric] g2 a2 refl]
  have f1: "fst (api_v1 delete_task ex_ctx ex_env_tasks) = ok_deleted"
    using w by blast
  have f2: "fst (api_v1 delete_task c' env1) = ok_deleted"
    using w by blast
  have none: "api_v1 delete_task ex_ctx ex_env_empty =
     (ok_deleted, \<lparr>TASKS = [ex_counter ''1'' 1621500090], COMMENTS = []\<rparr>)"
    unfolding api_v1_def ex_counter_first delete_task_ok [OF id]
    by (simp add: onError_def ex_ctx_def ex_counter_def kv_remove_def)
  show ?thesis
    using id f1 s1 f2 s2 none unfolding c'_def env1_def ok_deleted_def by (simp add: prod_eq_iff)
qed

text \<open>
  Claim C8 as stated fails in both parts. An id of 513 bytes is refused by the store:
  \<^verbatim>\<open>TASKS.delete\<close> throws and the request is answered 500, not 200. And two requests for
  the same id do not leave the store in the state that one leaves: each has passed the
  rate limiter, which counts it in \<^verbatim>\<open>TASKS\<close>, so the counter reads 1 after the first
  and 2 after the second.
\<close>

theorem delete_task_as_served:
  "utf8_length (param_id ex_long_ctx) = 513 \<and>
   api_v1 delete_task ex_long_ctx ex_env_empty =
     (\<lparr>status = 500, payload = Json (JObj [(''error'', JStr ''Internal Server Error'')])\<rparr>,
      \<lparr>TASKS = [ex_counter ''1'' 1621500090], COMMENTS = []\<rparr>) \<and>
   snd (api_v1 delete_task ex_ctx ex_env_empty) =
     \<lparr>TASKS = [ex_counter ''1'' 1621500090], COMMENTS = []\<rparr> \<and>
   snd (api_v1 delete_task ex_ctx (snd (api_v1 delete_task ex_ctx ex_env_empty))) =
     \<lparr>TASKS = [ex_counter ''2'' 1621500090], COMMENTS = []\<rparr> \<and>
   snd (api_v1 delete_task ex_ctx (snd (api_v1 delete_task ex_ctx ex_env_empty))) \<noteq>
     snd (api_v1 delete_task ex_ctx ex_env_empty)"
proof -
  have len: "utf8_length (param_id ex_long_ctx) = 513"
    by (simp add: ex_long_ctx_def ex_long_id_def utf8_length_def)
  have lim: "rateLimiter ex_long_ctx handler ex_env_empty =
      handler \<lparr>TASKS = [ex_counter ''1'' 1621500090], COMMENTS = []\<rparr>" for handler
    by (simp add: ex_long_ctx_def ex_defs route_defs Number_toString_def digits_Suc_0)
  have long: "api_v1 delete_task ex_long_ctx ex_env_empty =
     (\<lparr>status = 500, payload = Json (JObj [(''error'', JStr ''Internal Server Error'')])\<rparr>,
      \<lparr>TASKS = [ex_counter ''1'' 1621500090], COMMENTS = []\<rparr>)"
    unfolding api_v1_def lim
    using ex_long_id_refused
    by (simp add: delete_task_refused ex_long_ctx_def onError_def c_json_def)
  have id: "kv_key_ok (param_id ex_ctx)"
    by (simp add: ex_ctx_def kv_key_ok_def utf8_length_def)
  have one: "snd (api_v1 delete_task ex_ctx ex_env_empty) =
     \<lparr>TASKS = [ex_counter ''1'' 1621500090], COMMENTS = []\<rparr>"
    unfolding api_v1_def ex_counter_first delete_task_ok [OF id]
    by (simp add: onError_def ex_ctx_def ex_counter_def kv_remove_def)
  have two: "snd (api_v1 delete_task ex_ctx \<lparr>TASKS = [ex_counter ''1'' 1621500090], COMMENTS = []\<rparr>) =
     \<lparr>TASKS = [ex_counter ''2'' 1621500090], COMMENTS = []\<rparr>"
    unfolding api_v1_def ex_counter_second delete_task_ok [OF id]
    by (simp add: onError_def ex_ctx_def ex_counter_def kv_remove_def)
  show ?thesis
    unfolding one two using len long by (simp add: ex_counter_def)
qed

subsection \<open>GET /api/v1/tasks/:id\<close>

lemma get_task_absent:
  "kv_get (kv_now c) (TASKS env) (param_id c) = Inr None \<Longrightarrow>
     get_task c env = (Inr \<lparr>status = 404, payload = Text ''404 Not Found''\<rparr>, env)"
  by (simp add: get_task_def truthy_def c_notFound_def c_text_def)

text \<open>
  Claim C4. \<^verbatim>\<open>GET /api/v1/tasks/:id\<close> for an id with no record answers with status 404,
  not 200 and not 500. The body is the text \<^verbatim>\<open>404 Not Found\<close> of the framework's default
  handler and not a JSON object with an \<^verbatim>\<open>error\<close> field. The theorem runs the request
  for \<^verbatim>\<open>t1\<close> on an empty store, from the rate limiter on.
\<close>

theorem get_task_not_found_is_text:
  "api_v1 get_task ex_ctx ex_env_empty =
     (\<lparr>status = 404, payload = Text ''404 Not Found''\<rparr>,
      \<lparr>TASKS = [ex_counter ''1'' 1621500090], COMMENTS = []\<rparr>)"
proof -
  have "kv_get (kv_now ex_ctx) [ex_counter ''1'' 1621500090] (param_id ex_ctx) = Inr None"
    by (simp add: ex_defs route_defs)
  then have "get_task ex_ctx \<lparr>TASKS = [ex_counter ''1'' 1621500090], COMMENTS = []\<rparr> =
      (Inr \<lparr>status = 404, payload = Text ''404 Not Found''\<rparr>,
       \<lparr>TASKS = [ex_counter ''1'' 1621500090], COMMENTS = []\<rparr>)"
    using get_task_absent [of ex_ctx "\<lparr>TASKS = [ex_counter ''1'' 1621500090], COMMENTS = []\<rparr>"]
    by simp
  then show ?thesis
    by (simp add: api_v1_def ex_counter_first onError_def)
qed

subsection \<open>POST /api/v1/tasks/:id/comments\<close>

lemma post_comment_absent:
  assumes "kv_get (kv_now c) (TASKS env) (param_id c) = Inr None"
  shows "post_comment c env =
    (Inr (case zobject commentSchema (body c) of
            Inl issues \<Rightarrow> c_json (validation_failure issues) 400
          | Inr data \<Rightarrow> c_notFound), env)"
  using assms
  by (simp add: post_comment_def zValidator_def create_comment_def truthy_def split: sum.splits)

lemma parent_absent_after_limiter:
  assumes "kv_get t ns k = Inr None" and "k \<noteq> key"
  shows "kv_get t (kv_write t' ns key v ttl m) k = Inr None"
  using assms by (simp add: kv_get_def kv_read_write_other split: if_splits)

text \<open>
  Claim C5, as amended. The request is \<^verbatim>\<open>POST /api/v1/tasks/:id/comments\<close> for an id
  that the store takes as a key and under which \<^verbatim>\<open>TASKS\<close> has no readable entry when
  the request arrives, and the id is not the key of the requester's own counter, which
  the rate limiter is about to write. Then \<^verbatim>\<open>COMMENTS\<close> is left as it was, whatever the
  rate limiter and the validator answer. When the rate limiter has accepted the
  request, a body that passes the comment schema is answered 404 by the handler, and a
  body that fails it is answered 400 by the validator, before the handler looks for the
  parent.
\<close>

theorem post_comment_no_parent:
  assumes "kv_get (kv_now c) (TASKS env) (param_id c) = Inr None"
    and "param_id c \<noteq> rate_limit_key (cf_connecting_ip c)"
  shows "COMMENTS (snd (api_v1 post_comment c env)) = COMMENTS env \<and>
    status c_notFound = 404 \<and>
    (\<forall>n. kv_get (kv_now c) (TASKS env) (rate_limit_key (cf_connecting_ip c)) = Inr n \<and>
         \<not> num_ge (read_count n) 100 \<longrightarrow>
         fst (api_v1 post_comment c env) =
           (case zobject commentSchema (body c) of
              Inl issues \<Rightarrow> c_json (validation_failure issues) 400
            | Inr data \<Rightarrow> c_notFound))"
proof (intro conjI allI impI)
  show "COMMENTS (snd (api_v1 post_comment c env)) = COMMENTS env"
  proof (cases "kv_key_ok (rate_limit_key (cf_connecting_ip c))")
    case False
    then show ?thesis
      by (simp add: api_v1_def rateLimiter_refused onError_def)
  next
    case True
    show ?thesis
    proof (cases "num_ge (read_count (kv_read (kv_now c) (TASKS env)
        (rate_limit_key (cf_connecting_ip c)))) 100")
      case full: True
      then show ?thesis
        by (simp add: api_v1_def rateLimiter_run [OF True] onError_def)
    next
      case free: False
      have "api_v1 post_comment c env =
        onError (post_comment c (env\<lparr>TASKS := kv_write (kv_now c) (TASKS env)
          (rate_limit_key (cf_connecting_ip c))
          (Number_toString (num_add (read_count (kv_read (kv_now c) (TASKS env)
             (rate_limit_key (cf_connecting_ip c)))) 1)) (Some 60) None\<rparr>))"
        using free by (simp add: api_v1_def rateLimiter_run [OF True])
      also have "snd \<dots> = env\<lparr>TASKS := kv_write (kv_now c) (TASKS env)
          (rate_limit_key (cf_connecting_ip c))
          (Number_toString (num_add (read_count (kv_read (kv_now c) (TASKS env)
             (rate_limit_key (cf_connecting_ip c)))) 1)) (Some 60) None\<rparr>"
        using parent_absent_after_limiter [OF assms]
        by (simp add: snd_onError post_comment_absent)
      finally show ?thesis
        by simp
    qed
  qed
next
  show "status c_notFound = 404"
    by (simp add: c_notFound_def c_text_def)
next
  fix n
  assume h: "kv_get (kv_now c) (TASKS env) (rate_limit_key (cf_connecting_ip c)) = Inr n \<and>
         \<not> num_ge (read_count n) 100"
  then have "api_v1 post_comment c env =
    onError (post_comment c (env\<lparr>TASKS := kv_write (kv_now c) (TASKS env)
       (rate_limit_key (cf_connecting_ip c))
       (Number_toString (num_add (read_count n) 1)) (Some 60) None\<rparr>))"
    by (simp add: api_v1_accepted)
  then show "fst (api_v1 post_comment c env) =
           (case zobject commentSchema (body c) of
              Inl issues \<Rightarrow> c_json (validation_failure issues) 400
            | Inr data \<Rightarrow> c_notFound)"
    using parent_absent_after_limiter [OF assms]
    by (simp add: post_comment_absent onError_def)
qed

text \<open>A body with a content of five characters passes the comment schema.\<close>

lemma zobject_comment_hello:
  "zobject commentSchema (JObj [(''content'', JStr ''hello'')]) = Inr [(''content'', JStr ''hello'')]"
  by (simp add: zobject_def commentSchema_def obj_lit_def)

text \<open>A comment for the task \<^verbatim>\<open>t1\<close>, which an empty store does not have.\<close>

theorem post_comment_no_parent_witness:
  "kv_get (kv_now ex_comment_ctx) (TASKS ex_env_empty) (param_id ex_comment_ctx) = Inr None \<and>
   param_id ex_comment_ctx \<noteq> rate_limit_key (cf_connecting_ip ex_comment_ctx) \<and>
   zobject commentSchema (body ex_comment_ctx) = Inr [(''content'', JStr ''hello'')] \<and>
   api_v1 post_comment ex_comment_ctx ex_env_empty =
     (\<lparr>status = 404, payload = Text ''404 Not Found''\<rparr>,
      \<lparr>TASKS = [ex_counter ''1'' 1621500090], COMMENTS = []\<rparr>)"
proof -
  have g: "kv_get (kv_now ex_comment_ctx) (TASKS ex_env_empty) (param_id ex_comment_ctx) = Inr None"
    by (simp add: ex_defs route_defs)
  have o: "param_id ex_comment_ctx \<noteq> rate_limit_key (cf_connecting_ip ex_comment_ctx)"
    by (simp add: ex_defs rate_limit_key_def)
  have z: "zobject commentSchema (body ex_comment_ctx) = Inr [(''content'', JStr ''hello'')]"
    by (simp add: ex_defs zobject_comment_hello)
  have l: "kv_get (kv_now ex_comment_ctx) (TASKS ex_env_empty)
      (rate_limit_key (cf_connecting_ip ex_comment_ctx)) = Inr None"
    by (simp add: ex_defs route_defs)
  have a: "\<not> num_ge (read_count None) 100"
    by (simp add: read_count_def num_ge_def)
  note w = post_comment_no_parent [OF g o]
  have f: "fst (api_v1 post_comment ex_comment_ctx ex_env_empty) = c_notFound"
    using w l a z by simp
  have c: "COMMENTS (snd (api_v1 post_comment ex_comment_ctx ex_env_empty)) = []"
    using w by (simp add: ex_env_empty_def)
  have lim: "rateLimiter ex_comment_ctx handler ex_env_empty =
      handler \<lparr>TASKS = [ex_counter ''1'' 1621500090], COMMENTS = []\<rparr>" for handler
    by (simp add: ex_defs route_defs Number_toString_def digits_Suc_0)
  have g1: "kv_get (kv_now ex_comment_ctx) (TASKS \<lparr>TASKS = [ex_counter ''1'' 1621500090], COMMENTS = []\<rparr>)
      (param_id ex_comment_ctx) = Inr None"
    by (simp add: ex_defs route_defs)
  have t: "TASKS (snd (api_v1 post_comment ex_comment_ctx ex_env_empty)) = [ex_counter ''1'' 1621500090]"
    unfolding api_v1_def lim post_comment_absent [OF g1] by (simp add: snd_onError)
  have "snd (api_v1 post_comment ex_comment_ctx ex_env_empty) =
      \<lparr>TASKS = [ex_counter ''1'' 1621500090], COMMENTS = []\<rparr>"
    using c t by (cases "snd (api_v1 post_comment ex_comment_ctx ex_env_empty)") simp
  then show ?thesis
    using g o z f by (simp add: prod_eq_iff c_notFound_def c_text_def)
qed

text \<open>
  Claim C5 as stated fails on three requests, each on an empty store, which has no
  task. A comment with an empty content is refused by the validator and answered 400.
  A comment for the id \<^verbatim>\<open>rate_limit:203.0.113.7\<close>, sent from that address, finds the
  counter that the rate limiter has just written, takes it for the parent, is answered
  201 and is written to \<^verbatim>\<open>COMMENTS\<close>. A comment for an id of 513 bytes makes \<^verbatim>\<open>TASKS.get\<close>
  throw and is answered 500.
\<close>

theorem post_comment_as_served:
  "TASKS ex_env_empty = [] \<and>
   api_v1 post_comment (ex_comment_ctx\<lparr>body := JObj [(''content'', JStr [])]\<rparr>) ex_env_empty =
     (\<lparr>status = 400, payload = Json (validation_failure
        [\<lparr>issue_code = ''too_small'', issue_path = [Key ''content'']\<rparr>])\<rparr>,
      \<lparr>TASKS = [ex_counter ''1'' 1621500090], COMMENTS = []\<rparr>) \<and>
   api_v1 post_comment ex_own_comment_ctx ex_env_empty =
     (\<lparr>status = 201, payload = Json ex_own_comment\<rparr>,
      \<lparr>TASKS = [ex_counter ''1'' 1621500090],
       COMMENTS = [(''rate_limit:203.0.113.7:V1StGXR8_Z5jdHi6B-myT'',
          \<lparr>kv_text = JSON_stringify ex_own_comment, kv_expiration = None, kv_metadata = None\<rparr>)]\<rparr>) \<and>
   api_v1 post_comment ex_long_comment_ctx ex_env_empty =
     (\<lparr>status = 500, payload = Json (JObj [(''error'', JStr ''Internal Server Error'')])\<rparr>,
      \<lparr>TASKS = [ex_counter ''1'' 1621500090], COMMENTS = []\<rparr>)"
proof -
  have lim1: "rateLimiter (ex_comment_ctx\<lparr>body := JObj [(''content'', JStr [])]\<rparr>) handler ex_env_empty =
      handler \<lparr>TASKS = [ex_counter ''1'' 1621500090], COMMENTS = []\<rparr>" for handler
    by (simp add: ex_defs route_defs Number_toString_def digits_Suc_0)
  have bad: "api_v1 post_comment (ex_comment_ctx\<lparr>body := JObj [(''content'', JStr [])]\<rparr>) ex_env_empty =
     (\<lparr>status = 400, payload = Json (validation_failure
        [\<lparr>issue_code = ''too_small'', issue_path = [Key ''content'']\<rparr>])\<rparr>,
      \<lparr>TASKS = [ex_counter ''1'' 1621500090], COMMENTS = []\<rparr>)"
    unfolding api_v1_def lim1
    by (simp add: post_comment_def zValidator_def zobject_def commentSchema_def c_json_def onError_def)
  have lim2: "rateLimiter ex_own_comment_ctx handler ex_env_empty =
      handler \<lparr>TASKS = [ex_counter ''1'' 1621500090], COMMENTS = []\<rparr>" for handler
    by (simp add: ex_defs route_defs Number_toString_def digits_Suc_0)
  have z: "zobject commentSchema (body ex_own_comment_ctx) = Inr [(''content'', JStr ''hello'')]"
    by (simp add: ex_defs zobject_comment_hello)
  have found: "kv_get (kv_now ex_own_comment_ctx) [ex_counter ''1'' 1621500090] (param_id ex_own_comment_ctx) =
      Inr (Some ''1'')"
    by (simp add: ex_defs route_defs)
  have new: "JObj (new_comment [(''content'', JStr ''hello'')] ex_own_comment_ctx) = ex_own_comment"
    by (simp add: new_comment_def obj_lit_def ex_defs ex_own_comment_def Date_now_def Let_def)
  have key: "kv_key_ok (param_id ex_own_comment_ctx @ '':'' @ nanoid ex_own_comment_ctx)"
    by (simp add: ex_defs kv_key_ok_def utf8_length_def)
  have own: "api_v1 post_comment ex_own_comment_ctx ex_env_empty =
     (\<lparr>status = 201, payload = Json ex_own_comment\<rparr>,
      \<lparr>TASKS = [ex_counter ''1'' 1621500090],
       COMMENTS = [(''rate_limit:203.0.113.7:V1StGXR8_Z5jdHi6B-myT'',
          \<lparr>kv_text = JSON_stringify ex_own_comment, kv_expiration = None, kv_metadata = None\<rparr>)]\<rparr>)"
  proof -
    have "post_comment ex_own_comment_ctx \<lparr>TASKS = [ex_counter ''1'' 1621500090], COMMENTS = []\<rparr> =
      (Inr (c_json ex_own_comment 201),
       \<lparr>TASKS = [ex_counter ''1'' 1621500090],
        COMMENTS = kv_write (kv_now ex_own_comment_ctx) []
          (param_id ex_own_comment_ctx @ '':'' @ nanoid ex_own_comment_ctx)
          (JSON_stringify ex_own_comment) None None\<rparr>)"
      by (simp add: post_comment_def zValidator_def z create_comment_def found truthy_def
          kv_put_plain [OF key, simplified] new Let_def del: JSON_stringify.simps)
    moreover have "kv_write (kv_now ex_own_comment_ctx) []
          (param_id ex_own_comment_ctx @ '':'' @ nanoid ex_own_comment_ctx)
          (JSON_stringify ex_own_comment) None None =
        [(''rate_limit:203.0.113.7:V1StGXR8_Z5jdHi6B-myT'',
          \<lparr>kv_text = JSON_stringify ex_own_comment, kv_expiration = None, kv_metadata = None\<rparr>)]"
      by (simp add: kv_write_def ex_defs)
    ultimately show ?thesis
      unfolding api_v1_def lim2 by (simp add: onError_def c_json_def)
  qed
  have lim3: "rateLimiter ex_long_comment_ctx handler ex_env_empty =
      handler \<lparr>TASKS = [ex_counter ''1'' 1621500090], COMMENTS = []\<rparr>" for handler
    by (simp add: ex_long_comment_ctx_def ex_defs route_defs Number_toString_def digits_Suc_0)
  have z3: "zobject commentSchema (body ex_long_comment_ctx) = Inr [(''content'', JStr ''hello'')]"
    by (simp add: ex_long_comment_ctx_def zobject_comment_hello)
  have long: "api_v1 post_comment ex_long_comment_ctx ex_env_empty =
     (\<lparr>status = 500, payload = Json (JObj [(''error'', JStr ''Internal Server Error'')])\<rparr>,
      \<lparr>TASKS = [ex_counter ''1'' 1621500090], COMMENTS = []\<rparr>)"
  proof -
    have "param_id ex_long_comment_ctx = ex_long_id"
      by (simp add: ex_long_comment_ctx_def)
    then have "post_comment ex_long_comment_ctx e = (Inl StoreError, e)" for e
      using ex_long_id_refused
      by (simp add: post_comment_def zValidator_def z3 create_comment_def kv_get_def)
    then show ?thesis
      unfolding api_v1_def lim3 by (simp add: onError_def c_json_def)
  qed
  show ?thesis
    using bad own long by (simp add: ex_env_empty_def)
qed

subsection \<open>POST /api/v1/tasks\<close>

lemma taskSchema_title_only:
  assumes "map_of kvs ''title'' = Some (JStr s)" and "1 \<le> length s" and "length s \<le> 100"
    and "map_of kvs ''status'' = None" and "map_of kvs ''priority'' = None"
    and "map_of kvs ''labels'' = None"
  shows "zobject taskSchema (JObj kvs) =
    Inr [(''title'', JStr s), (''status'', JStr ''todo''), (''priority'', JStr ''medium''),
         (''labels'', JArr [])]"
  using assms by (auto simp: zobject_def taskSchema_def obj_lit_def)

text \<open>
  When the body has a title of 1 to 100 characters and no status, priority or labels,
  and the store takes the write, the route answers 201 with the record \<open>task\<close>: status
  \<^verbatim>\<open>todo\<close>, priority \<^verbatim>\<open>medium\<close>, no labels, and \<^verbatim>\<open>createdAt\<close> equal to \<^verbatim>\<open>updatedAt\<close>.
  The same record is what the route stores under the new id. The store takes the write
  when the id has at most 512 bytes and the JSON text of the record, which the handler
  passes as metadata, has at most 1024. When it does not, nothing is stored and the
  call throws.
\<close>

lemma post_tasks_defaults:
  assumes "body c = JObj kvs"
    and "map_of kvs ''title'' = Some (JStr s)" and "1 \<le> length s" and "length s \<le> 100"
    and "map_of kvs ''status'' = None" and "map_of kvs ''priority'' = None"
    and "map_of kvs ''labels'' = None"
    and "task = JObj
      [(''id'', JStr (nanoid c)),
       (''title'', JStr s),
       (''status'', JStr ''todo''),
       (''priority'', JStr ''medium''),
       (''labels'', JArr []),
       (''createdAt'', JNum (now c)),
       (''updatedAt'', JNum (now c)),
       (''links'', JObj
          [(''self'', JStr (url c @ ''/'' @ nanoid c)),
           (''comments'', JStr (url c @ ''/'' @ nanoid c @ ''/comments''))])]"
  shows "post_tasks c env =
    (if utf8_length (nanoid c) \<le> 512 \<and> utf8_length (JSON_stringify task) \<le> 1024
     then (Inr \<lparr>status = 201, payload = Json task\<rparr>,
           env\<lparr>TASKS := kv_write (kv_now c) (TASKS env) (nanoid c) (JSON_stringify task) None (Some task)\<rparr>)
     else (Inl StoreError, env))"
proof -
  have "zobject taskSchema (body c) =
    Inr [(''title'', JStr s), (''status'', JStr ''todo''), (''priority'', JStr ''medium''),
         (''labels'', JArr [])]"
    using assms(1-7) by (simp add: taskSchema_title_only)
  then show ?thesis
    unfolding assms(8)
    by (simp add: post_tasks_def zValidator_def create_task_def new_task_def obj_lit_def Let_def
        c_json_def Date_now_def kv_put_def kv_key_ok_def kv_ttl_ok_def kv_metadata_ok_def
        del: JSON_stringify.simps)
qed

lemma ex_created_size: "utf8_length (JSON_stringify ex_created) = 308"
  by (simp add: ex_created_def utf8_length_def js_eval)

lemma post_tasks_defaults_example:
  "api_v1 post_tasks ex_post_ctx ex_env_empty =
     (\<lparr>status = 201, payload = Json ex_created\<rparr>,
      \<lparr>TASKS = [ex_counter ''1'' 1621500090,
                 (''V1StGXR8_Z5jdHi6B-myT'',
                  \<lparr>kv_text = JSON_stringify ex_created, kv_expiration = None, kv_metadata = Some ex_created\<rparr>)],
       COMMENTS = []\<rparr>)"
proof -
  have b: "body ex_post_ctx = JObj [(''title'', JStr ''Buy milk'')]"
    by (simp add: ex_defs)
  have t: "ex_created = JObj
      [(''id'', JStr (nanoid ex_post_ctx)),
       (''title'', JStr ''Buy milk''),
       (''status'', JStr ''todo''),
       (''priority'', JStr ''medium''),
       (''labels'', JArr []),
       (''createdAt'', JNum (now ex_post_ctx)),
       (''updatedAt'', JNum (now ex_post_ctx)),
       (''links'', JObj
          [(''self'', JStr (url ex_post_ctx @ ''/'' @ nanoid ex_post_ctx)),
           (''comments'', JStr (url ex_post_ctx @ ''/'' @ nanoid ex_post_ctx @ ''/comments''))])]"
    by (simp add: ex_defs)
  have i: "utf8_length (nanoid ex_post_ctx) \<le> 512"
    by (simp add: ex_defs utf8_length_def)
  have lim: "rateLimiter ex_post_ctx handler ex_env_empty =
      handler \<lparr>TASKS = [ex_counter ''1'' 1621500090], COMMENTS = []\<rparr>" for handler
    by (simp add: ex_defs route_defs Number_toString_def digits_Suc_0)
  have "post_tasks ex_post_ctx \<lparr>TASKS = [ex_counter ''1'' 1621500090], COMMENTS = []\<rparr> =
     (Inr \<lparr>status = 201, payload = Json ex_created\<rparr>,
      \<lparr>TASKS = kv_write (kv_now ex_post_ctx) [ex_counter ''1'' 1621500090] (nanoid ex_post_ctx)
         (JSON_stringify ex_created) None (Some ex_created), COMMENTS = []\<rparr>)"
    using post_tasks_defaults [where s = "''Buy milk''", OF b _ _ _ _ _ _ t] i
    by (simp add: ex_created_size del: JSON_stringify.simps)
  moreover have "kv_write (kv_now ex_post_ctx) [ex_counter ''1'' 1621500090] (nanoid ex_post_ctx)
         (JSON_stringify ex_created) None (Some ex_created) =
      [ex_counter ''1'' 1621500090,
       (''V1StGXR8_Z5jdHi6B-myT'',
        \<lparr>kv_text = JSON_stringify ex_created, kv_expiration = None, kv_metadata = Some ex_created\<rparr>)]"
    by (simp add: kv_write_def ex_defs del: JSON_stringify.simps)
  ultimately show ?thesis
    unfolding api_v1_def lim by (simp add: onError_def)
qed

lemma ex_long_task_size: "utf8_length (JSON_stringify ex_long_task) = 1114"
  by (simp add: ex_long_task_def utf8_length_def js_eval)

text \<open>
  Claim C6 says that every \<^verbatim>\<open>POST /api/v1/tasks\<close> whose body has only a valid title is
  answered 201 with the record and its defaults. The program does not keep this for
  every such request. The handler builds the links of the record from the URL of the
  request and passes the whole record to \<^verbatim>\<open>TASKS.put\<close> as metadata, for which the store
  has a limit of 1024 bytes. The request here has the body \<^verbatim>\<open>{"title": "Buy milk"}\<close>,
  which the schema accepts and completes with the defaults, and a URL with a query of
  400 characters: the JSON text of its record has 1114 bytes, the write is refused,
  the request is answered 500 and no task is stored.
\<close>

theorem post_tasks_long_url:
  "body ex_long_url_ctx = JObj [(''title'', JStr ''Buy milk'')] \<and>
   length (url ex_long_url_ctx) = 439 \<and>
   zobject taskSchema (body ex_long_url_ctx) =
     Inr [(''title'', JStr ''Buy milk''), (''status'', JStr ''todo''), (''priority'', JStr ''medium''),
          (''labels'', JArr [])] \<and>
   JObj (new_task [(''title'', JStr ''Buy milk''), (''status'', JStr ''todo''),
                   (''priority'', JStr ''medium''), (''labels'', JArr [])] ex_long_url_ctx) = ex_long_task \<and>
   utf8_length (JSON_stringify ex_long_task) = 1114 \<and>
   api_v1 post_tasks ex_long_url_ctx ex_env_empty =
     (\<lparr>status = 500, payload = Json (JObj [(''error'', JStr ''Internal Server Error'')])\<rparr>,
      \<lparr>TASKS = [ex_counter ''1'' 1621500090], COMMENTS = []\<rparr>)"
proof -
  have b: "body ex_long_url_ctx = JObj [(''title'', JStr ''Buy milk'')]"
    by (simp add: ex_long_url_ctx_def ex_defs)
  have u: "length (url ex_long_url_ctx) = 439"
    by (simp add: ex_long_url_ctx_def)
  have z: "zobject taskSchema (body ex_long_url_ctx) =
     Inr [(''title'', JStr ''Buy milk''), (''status'', JStr ''todo''), (''priority'', JStr ''medium''),
          (''labels'', JArr [])]"
    unfolding b by (rule taskSchema_title_only) simp_all
  have n: "JObj (new_task [(''title'', JStr ''Buy milk''), (''status'', JStr ''todo''),
                   (''priority'', JStr ''medium''), (''labels'', JArr [])] ex_long_url_ctx) = ex_long_task"
    by (simp add: new_task_def obj_lit_def Let_def Date_now_def ex_long_url_ctx_def ex_long_task_def ex_defs)
  have lim: "rateLimiter ex_long_url_ctx handler ex_env_empty =
      handler \<lparr>TASKS = [ex_counter ''1'' 1621500090], COMMENTS = []\<rparr>" for handler
    by (simp add: ex_long_url_ctx_def ex_defs route_defs Number_toString_def digits_Suc_0)
  have "post_tasks ex_long_url_ctx e = (Inl StoreError, e)" for e
    by (simp add: post_tasks_def zValidator_def z create_task_def n Let_def kv_put_def
        kv_metadata_ok_def ex_long_task_size del: JSON_stringify.simps)
  then have "api_v1 post_tasks ex_long_url_ctx ex_env_empty =
     (\<lparr>status = 500, payload = Json (JObj [(''error'', JStr ''Internal Server Error'')])\<rparr>,
      \<lparr>TASKS = [ex_counter ''1'' 1621500090], COMMENTS = []\<rparr>)"
    unfolding api_v1_def lim by (simp add: onError_def c_json_def)
  with b u z n ex_long_task_size show ?thesis
    by blast
qed

text \<open>
  A body whose title is the empty string is refused by the validator, for every state
  and with the state returned as it was: the validator and the handler read and write
  no store. The issues that the validator reports contain one with the path
  \<^verbatim>\<open>["title"]\<close>.
\<close>

lemma post_tasks_empty_title:
  assumes "body c = JObj kvs" and "map_of kvs ''title'' = Some (JStr [])"
  shows "\<exists>issues. zobject taskSchema (body c) = Inl issues \<and>
      \<lparr>issue_code = ''too_small'', issue_path = [Key ''title'']\<rparr> \<in> set issues \<and>
      (\<forall>env. post_tasks c env = (Inr (c_json (validation_failure issues) 400), env))"
proof -
  obtain rest where z: "zobject taskSchema (body c) =
      Inl (\<lparr>issue_code = ''too_small'', issue_path = [Key ''title'']\<rparr> # rest)"
    using assms by (simp add: zobject_def taskSchema_def Let_def)
  have p: "post_tasks c env =
      (Inr (c_json (validation_failure (\<lparr>issue_code = ''too_small'', issue_path = [Key ''title'']\<rparr> # rest)) 400), env)"
    for env
    using z by (simp add: post_tasks_def zValidator_def)
  show ?thesis
    using z p by (intro exI [of _ "\<lparr>issue_code = ''too_small'', issue_path = [Key ''title'']\<rparr> # rest"]) simp
qed

text \<open>
  Claim C7 says that a \<^verbatim>\<open>POST /api/v1/tasks\<close> whose title is the empty string is answered
  400 with an \<^verbatim>\<open>issues\<close> array that has an entry with the path \<^verbatim>\<open>["title"]\<close>; the
  documentation of the program gives the body as an object with the text
  \<^verbatim>\<open>Validation failed\<close> under \<^verbatim>\<open>error\<close> and the array under \<^verbatim>\<open>issues\<close>. The program
  answers 400 with another body. The route uses the validator without a hook, so the
  body is the result of the parse: \<^verbatim>\<open>success\<close> false, and under \<^verbatim>\<open>error\<close> not a text
  but an object, which holds the issues and the name \<^verbatim>\<open>ZodError\<close>. The body has no
  \<^verbatim>\<open>issues\<close> of its own. The theorem runs the request with the body \<^verbatim>\<open>{"title": ""}\<close> on
  an empty store, from the rate limiter on; of an issue the model keeps the code and
  the path. The handler has not run and no task is stored; the entry in \<^verbatim>\<open>TASKS\<close> is
  the counter that the rate limiter has written before the validator ran.
\<close>

theorem post_tasks_empty_title_body:
  "body ex_bad_ctx = JObj [(''title'', JStr [])] \<and>
   api_v1 post_tasks ex_bad_ctx ex_env_empty =
     (\<lparr>status = 400, payload = Json (JObj
        [(''success'', JBool False),
         (''error'', JObj
            [(''issues'', JArr [JObj [(''code'', JStr ''too_small''), (''path'', JArr [JStr ''title''])]]),
             (''name'', JStr ''ZodError'')])])\<rparr>,
      \<lparr>TASKS = [ex_counter ''1'' 1621500090], COMMENTS = []\<rparr>) \<and>
   get_prop (JObj
        [(''success'', JBool False),
         (''error'', JObj
            [(''issues'', JArr [JObj [(''code'', JStr ''too_small''), (''path'', JArr [JStr ''title''])]]),
             (''name'', JStr ''ZodError'')])]) ''issues'' = None"
proof -
  have b: "body ex_bad_ctx = JObj [(''title'', JStr [])]"
    by (simp add: ex_defs)
  have z: "zobject taskSchema (body ex_bad_ctx) =
      Inl [\<lparr>issue_code = ''too_small'', issue_path = [Key ''title'']\<rparr>]"
    by (simp add: ex_defs zobject_def taskSchema_def)
  have lim: "rateLimiter ex_bad_ctx handler ex_env_empty =
      handler \<lparr>TASKS = [ex_counter ''1'' 1621500090], COMMENTS = []\<rparr>" for handler
    by (simp add: ex_defs route_defs Number_toString_def digits_Suc_0)
  have "api_v1 post_tasks ex_bad_ctx ex_env_empty =
     (\<lparr>status = 400, payload = Json (JObj
        [(''success'', JBool False),
         (''error'', JObj
            [(''issues'', JArr [JObj [(''code'', JStr ''too_small''), (''path'', JArr [JStr ''title''])]]),
             (''name'', JStr ''ZodError'')])])\<rparr>,
      \<lparr>TASKS = [ex_counter ''1'' 1621500090], COMMENTS = []\<rparr>)"
    unfolding api_v1_def lim
    by (simp add: post_tasks_def zValidator_def z onError_def c_json_def validation_failure_def
        issue_json_def path_json_def)
  with b show ?thesis
    by (simp add: get_prop_def)
qed

section \<open>Objects, schemas and the update of a task\<close>

text \<open>The stored text of the first example task reads back as the task.\<close>

lemma ex_parse_t1: "JSON_parse (JSON_stringify ex_t1) = Some ex_t1"
  by (simp add: ex_t1_def ex_task_def js_eval)

lemma map_of_obj_assign:
  "map_of (obj_assign target source) k =
     (case map_of (rev source) k of None \<Rightarrow> map_of target k | Some v \<Rightarrow> Some v)"
proof (induction source arbitrary: target)
  case Nil
  then show ?case by (simp add: obj_assign_def)
next
  case (Cons kv source)
  have "obj_assign target (kv # source) = obj_assign (AList.update (fst kv) (snd kv) target) source"
    by (simp add: obj_assign_def)
  then show ?case
    using Cons [of "AList.update (fst kv) (snd kv) target"]
    by (cases kv) (auto simp: update_conv' map_add_def split: option.splits)
qed

lemma map_of_obj_assign_other:
  "map_of source k = None \<Longrightarrow> map_of (obj_assign target source) k = map_of target k"
proof -
  assume "map_of source k = None"
  then have "map_of (rev source) k = None"
    by (simp add: map_of_eq_None_iff)
  then show ?thesis
    by (simp add: map_of_obj_assign)
qed

lemma map_of_obj_lit:
  "map_of (obj_lit ps) k = Some v \<Longrightarrow> (k, Some v) \<in> set ps"
  by (induction ps) (auto simp: obj_lit_def split: option.splits if_splits)

lemma zobject_keys:
  assumes "zobject shape (JObj kvs) = Inr upd" and "map_of upd k = Some v"
  shows "k \<in> fst ` set shape"
proof -
  have "upd = obj_lit (map (\<lambda>kr. (fst kr, snd (snd kr)))
      (map (\<lambda>kt. (fst kt, zparse (snd kt) [Key (fst kt)] (map_of kvs (fst kt)))) shape))"
    using assms(1) by (simp add: zobject_def Let_def split: if_splits)
  with assms(2) show ?thesis
    by (auto dest!: map_of_obj_lit)
qed

lemma zobject_partial_absent:
  assumes "zobject (partial shape) (JObj kvs) = Inr upd" and "map_of kvs k = None"
  shows "map_of upd k = None"
proof (rule ccontr)
  assume "map_of upd k \<noteq> None"
  then obtain v where v: "map_of upd k = Some v"
    by auto
  have "upd = obj_lit (map (\<lambda>kr. (fst kr, snd (snd kr)))
      (map (\<lambda>kt. (fst kt, zparse (snd kt) [Key (fst kt)] (map_of kvs (fst kt)))) (partial shape)))"
    using assms(1) by (simp add: zobject_def Let_def split: if_splits)
  with v have "(k, Some v) \<in> set (map (\<lambda>kr. (fst kr, snd (snd kr)))
      (map (\<lambda>kt. (fst kt, zparse (snd kt) [Key (fst kt)] (map_of kvs (fst kt)))) (partial shape)))"
    by (auto dest!: map_of_obj_lit)
  then show False
    using assms(2) by (auto simp: partial_def)
qed


lemma obj_lit_keys: "fst ` set (obj_lit ps) \<subseteq> fst ` set ps"
  by (induction ps) (auto simp: obj_lit_def split: option.splits)

lemma obj_lit_distinct: "distinct (map fst ps) \<Longrightarrow> distinct (map fst (obj_lit ps))"
proof (induction ps)
  case Nil
  then show ?case by (simp add: obj_lit_def)
next
  case (Cons p ps)
  have tail: "obj_lit (p # ps) = (case snd p of None \<Rightarrow> [] | Some v \<Rightarrow> [(fst p, v)]) @ obj_lit ps"
    by (simp add: obj_lit_def)
  have "fst p \<notin> fst ` set (obj_lit ps)"
    using Cons.prems obj_lit_keys [of ps] by auto
  then show ?case
    using Cons tail by (cases "snd p") auto
qed

lemma zobject_distinct:
  assumes "distinct (map fst shape)" and "zobject shape (JObj kvs) = Inr upd"
  shows "distinct (map fst upd)"
proof -
  define rs where "rs = map (\<lambda>kr. (fst kr, snd (snd kr)))
      (map (\<lambda>kt. (fst kt, zparse (snd kt) [Key (fst kt)] (map_of kvs (fst kt)))) shape)"
  have u: "upd = obj_lit rs"
    using assms(2) unfolding rs_def by (simp add: zobject_def Let_def split: if_splits)
  have "map fst rs = map fst shape"
    unfolding rs_def by (simp add: comp_def)
  then have "distinct (map fst rs)"
    using assms(1) by simp
  then show ?thesis
    unfolding u by (rule obj_lit_distinct)
qed

lemma map_of_rev_distinct:
  assumes "distinct (map fst xs)"
  shows "map_of (rev xs) k = map_of xs k"
proof (cases "map_of xs k")
  case None
  then have "k \<notin> fst ` set (rev xs)"
    by (simp add: map_of_eq_None_iff)
  then have "map_of (rev xs) k = None"
    unfolding map_of_eq_None_iff .
  with None show ?thesis by simp
next
  case (Some v)
  then have "(k, v) \<in> set (rev xs)"
    by (auto dest: map_of_SomeD)
  moreover have "distinct (map fst (rev xs))"
    using assms by (simp add: rev_map [symmetric])
  ultimately have "map_of (rev xs) k = Some v"
    by (rule map_of_is_SomeI [rotated])
  with Some show ?thesis by simp
qed

lemma partial_task_keys:
  "fst ` set (partial taskSchema) = set [''title'', ''status'', ''priority'', ''labels'']"
  "distinct (map fst (partial taskSchema))"
  by (simp_all add: partial_def taskSchema_def)

text \<open>
  Claim C3, as amended. \<^verbatim>\<open>PUT /api/v1/tasks/:id\<close> on a stored record \<open>old\<close>, with a body
  that passes the partial schema, answers 200 with the merged record \<open>new\<close> and stores
  its text under the same id. In \<open>new\<close> the \<^verbatim>\<open>id\<close> and \<^verbatim>\<open>createdAt\<close> are those of \<open>old\<close>,
  also when the body supplies them (the schema drops keys it does not name);
  \<^verbatim>\<open>updatedAt\<close> is the clock reading of the request; every other key that the body does
  not have, \<^verbatim>\<open>links\<close> apart (they are computed from the request's URL), has its old
  value; and a field that the validated body has takes the value given.
\<close>

theorem put_task_merge:
  assumes "body c = JObj b"
    and "zobject (partial taskSchema) (body c) = Inr upd"
    and "kv_get (kv_now c) (TASKS env) (param_id c) = Inr (Some txt)" and "txt \<noteq> []"
    and "JSON_parse txt = Some (JObj old)"
    and "new = updatedTask (JObj old) upd c"
  shows "put_task c env =
      (Inr \<lparr>status = 200, payload = Json (JObj new)\<rparr>,
       env\<lparr>TASKS := kv_write (kv_now c) (TASKS env) (param_id c) (JSON_stringify (JObj new)) None None\<rparr>) \<and>
    map_of new ''id'' = map_of old ''id'' \<and>
    map_of new ''createdAt'' = map_of old ''createdAt'' \<and>
    map_of new ''updatedAt'' = Some (JNum (now c)) \<and>
    (\<forall>k. k \<notin> fst ` set b \<and> k \<noteq> ''updatedAt'' \<and> k \<noteq> ''links'' \<longrightarrow> map_of new k = map_of old k) \<and>
    (\<forall>k v. map_of upd k = Some v \<longrightarrow>
       k \<in> set [''title'', ''status'', ''priority'', ''labels''] \<and> map_of new k = Some v)"
proof -
  have z: "zobject (partial taskSchema) (JObj b) = Inr upd"
    using assms(1,2) by simp
  have keys: "k \<in> set [''title'', ''status'', ''priority'', ''labels'']" if "map_of upd k = Some v" for k v
    using zobject_keys [OF z that] partial_task_keys(1) by simp
  have dist: "distinct (map fst upd)"
    using partial_task_keys(2) z by (rule zobject_distinct)
  have look: "map_of new k =
      (if k = ''links'' then Some (JObj [(''self'', JStr (url c)), (''comments'', JStr (url c @ ''/comments''))])
       else if k = ''updatedAt'' then Some (JNum (now c))
       else case map_of upd k of None \<Rightarrow> map_of old k | Some v \<Rightarrow> Some v)" for k
  proof -
    have "map_of (rev upd) k = map_of upd k"
      using dist by (rule map_of_rev_distinct)
    then show ?thesis
      unfolding assms(6) updatedTask_def
      by (simp add: map_of_obj_assign spread_def Date_now_def)
  qed
  have key: "kv_key_ok (param_id c)"
    using assms(3) by (simp add: kv_get_def split: if_splits)
  have run: "put_task c env =
      (Inr \<lparr>status = 200, payload = Json (JObj new)\<rparr>,
       env\<lparr>TASKS := kv_write (kv_now c) (TASKS env) (param_id c) (JSON_stringify (JObj new)) None None\<rparr>)"
    using assms(2-6)
    by (simp add: put_task_def zValidator_def update_task_def truthy_def c_json_def
        kv_put_plain [OF key] del: JSON_stringify.simps)
  have no_id: "map_of upd ''id'' = None"
  proof (cases "map_of upd ''id''")
    case (Some v)
    from keys [OF Some] show ?thesis by simp
  qed simp
  have no_created: "map_of upd ''createdAt'' = None"
  proof (cases "map_of upd ''createdAt''")
    case (Some v)
    from keys [OF Some] show ?thesis by simp
  qed simp
  have absent: "map_of upd k = None" if "k \<notin> fst ` set b" for k
    using z that by (intro zobject_partial_absent [of taskSchema b upd]) (simp_all add: map_of_eq_None_iff)
  have kept: "map_of new k = map_of old k" if "k \<notin> fst ` set b \<and> k \<noteq> ''updatedAt'' \<and> k \<noteq> ''links''" for k
    using that absent [of k] by (simp add: look)
  have set_new: "k \<in> set [''title'', ''status'', ''priority'', ''labels''] \<and> map_of new k = Some v"
    if "map_of upd k = Some v" for k v
    using keys [OF that] that by (auto simp: look)
  have ids: "map_of new ''id'' = map_of old ''id''" "map_of new ''createdAt'' = map_of old ''createdAt''"
    "map_of new ''updatedAt'' = Some (JNum (now c))"
    using no_id no_created by (simp_all add: look)
  show ?thesis
    using run ids kept set_new by blast
qed


lemma stringify_nonempty: "JSON_stringify v \<noteq> []"
  by (cases v) (simp_all add: toString_nonempty quote_def)

lemma ex_partial_status:
  "zobject (partial taskSchema) (body ex_put_ctx) = Inr [(''status'', JStr ''done'')]"
  by (simp add: ex_put_ctx_def ex_ctx_def zobject_def partial_def taskSchema_def obj_lit_def)

lemma ex_updatedTask:
  "JObj (updatedTask ex_t1 [(''status'', JStr ''done'')] (ex_put_ctx\<lparr>now := t\<rparr>)) = ex_updated t"
  by (simp add: updatedTask_def ex_t1_def ex_task_def ex_updated_def ex_put_ctx_def ex_ctx_def
      obj_assign_def spread_def Date_now_def)

lemma ex_get_t1: "kv_get t (TASKS ex_env_tasks) ''t1'' = Inr (Some (JSON_stringify ex_t1))"
  by (simp add: ex_env_tasks_def ex_entry_def kv_get_def kv_read_def kv_live_def kv_key_ok_def
      utf8_length_def del: JSON_stringify.simps)

lemma ex_t1_key_ok: "kv_key_ok ''t1''"
  by (simp add: kv_key_ok_def utf8_length_def)

theorem put_task_merge_witness:
  "zobject (partial taskSchema) (body ex_put_ctx) = Inr [(''status'', JStr ''done'')] \<and>
   kv_get (kv_now ex_put_ctx) (TASKS ex_env_tasks) (param_id ex_put_ctx) = Inr (Some (JSON_stringify ex_t1)) \<and>
   JSON_parse (JSON_stringify ex_t1) = Some ex_t1 \<and>
   put_task ex_put_ctx ex_env_tasks =
     (Inr \<lparr>status = 200, payload = Json (ex_updated 1621500030000)\<rparr>,
      ex_env_tasks\<lparr>TASKS := kv_write 1621500030 (TASKS ex_env_tasks) ''t1''
         (JSON_stringify (ex_updated 1621500030000)) None None\<rparr>)"
proof -
  have b: "body ex_put_ctx = JObj [(''status'', JStr ''done''), (''id'', JStr ''other''), (''createdAt'', JNum 0)]"
    by (simp add: ex_put_ctx_def)
  have g: "kv_get (kv_now ex_put_ctx) (TASKS ex_env_tasks) (param_id ex_put_ctx) = Inr (Some (JSON_stringify ex_t1))"
    by (simp add: ex_get_t1 ex_put_ctx_def ex_ctx_def)
  obtain old where old: "ex_t1 = JObj old"
    by (simp add: ex_t1_def ex_task_def)
  have p: "JSON_parse (JSON_stringify ex_t1) = Some (JObj old)"
    using ex_parse_t1 old by simp
  have n: "updatedTask (JObj old) [(''status'', JStr ''done'')] ex_put_ctx =
      updatedTask (JObj old) [(''status'', JStr ''done'')] ex_put_ctx"
    by simp
  have u: "JObj (updatedTask (JObj old) [(''status'', JStr ''done'')] ex_put_ctx) = ex_updated 1621500030000"
    using ex_updatedTask [of 1621500030000] old by (simp add: ex_put_ctx_def ex_ctx_def)
  from put_task_merge [OF b ex_partial_status g stringify_nonempty p n]
  have "put_task ex_put_ctx ex_env_tasks =
     (Inr \<lparr>status = 200, payload = Json (ex_updated 1621500030000)\<rparr>,
      ex_env_tasks\<lparr>TASKS := kv_write (kv_now ex_put_ctx) (TASKS ex_env_tasks) (param_id ex_put_ctx)
         (JSON_stringify (ex_updated 1621500030000)) None None\<rparr>)"
    unfolding u by blast
  then show ?thesis
    using ex_partial_status g ex_parse_t1 by (simp add: ex_put_ctx_def ex_ctx_def kv_now_def)
qed

text \<open>
  Claim C3 as stated fails in its last part: \<^verbatim>\<open>updatedAt\<close> is the clock reading, which
  need not be later than the stored value. A task whose \<^verbatim>\<open>updatedAt\<close> is 1621500000000,
  updated by a request whose clock reads the same millisecond, keeps that value.
\<close>

theorem put_task_same_millisecond:
  "get_prop ex_t1 ''updatedAt'' = Some (JNum 1621500000000) \<and>
   kv_get (kv_now (ex_put_ctx\<lparr>now := 1621500000000\<rparr>)) (TASKS ex_env_tasks) ''t1'' =
     Inr (Some (JSON_stringify ex_t1)) \<and>
   JSON_parse (JSON_stringify ex_t1) = Some ex_t1 \<and>
   fst (put_task (ex_put_ctx\<lparr>now := 1621500000000\<rparr>) ex_env_tasks) =
     Inr \<lparr>status = 200, payload = Json (ex_updated 1621500000000)\<rparr> \<and>
   get_prop (ex_updated 1621500000000) ''updatedAt'' = Some (JNum 1621500000000)"
proof -
  have z: "zobject (partial taskSchema) (body (ex_put_ctx\<lparr>now := 1621500000000\<rparr>)) =
      Inr [(''status'', JStr ''done'')]"
    using ex_partial_status by simp
  have id: "param_id (ex_put_ctx\<lparr>now := 1621500000000\<rparr>) = ''t1''"
    by (simp add: ex_put_ctx_def ex_ctx_def)
  have "fst (put_task (ex_put_ctx\<lparr>now := 1621500000000\<rparr>) ex_env_tasks) =
     Inr \<lparr>status = 200, payload = Json (ex_updated 1621500000000)\<rparr>"
    by (simp add: put_task_def zValidator_def ex_partial_status update_task_def id ex_get_t1 truthy_def
        stringify_nonempty ex_parse_t1 ex_updatedTask c_json_def kv_put_plain [OF ex_t1_key_ok]
        del: JSON_stringify.simps)
  moreover have "get_prop ex_t1 ''updatedAt'' = Some (JNum 1621500000000)"
    by (simp add: get_prop_def ex_t1_def ex_task_def)
  moreover have "get_prop (ex_updated 1621500000000) ''updatedAt'' = Some (JNum 1621500000000)"
    by (simp add: get_prop_def ex_updated_def)
  ultimately show ?thesis
    using ex_get_t1 ex_parse_t1 by simp
qed

section \<open>The list of tasks\<close>

lemma Promise_all_length: "Promise_all rs = Inr xs \<Longrightarrow> length xs = length rs"
  by (induction rs arbitrary: xs) (auto split: sum.splits)

lemma keep_task_status:
  "keep_task (Some s) p t \<Longrightarrow> s \<noteq> [] \<Longrightarrow> map_of t ''status'' = Some (JStr s)"
  by (simp add: keep_task_def truthy_def split: if_splits)

text \<open>
  Claim C1. When \<^verbatim>\<open>GET /api/v1/tasks\<close> is asked with a status filter \<open>s\<close> that is not empty
  and answers with a list, the list is made from the page of keys that the store has
  returned: each key is read and decoded (\<open>page\<close>), the page is filtered, and the
  response carries the records that are left (\<open>filtered\<close>). Every record of the
  \<^verbatim>\<open>tasks\<close> array has the status \<open>s\<close>, and \<^verbatim>\<open>metadata.total\<close> is the number of records
  left after the filter, not the size of the page. The stores are not changed.
\<close>

theorem get_tasks_status_filter:
  assumes "map_of (query c) ''status'' = Some s" and "s \<noteq> []"
    and "get_tasks c env = (Inr res, env')"
  shows "\<exists>keys page filtered.
      list_keys c env = Inr keys \<and>
      Promise_all (map (task_view c env) keys) = Inr page \<and>
      length page = length keys \<and>
      filtered = filter (keep_task (Some s) (map_of (query c) ''priority'')) page \<and>
      res = \<lparr>status = 200, payload = Json (list_response c (pageNumber c) (limitNumber c) filtered)\<rparr> \<and>
      get_prop (list_response c (pageNumber c) (limitNumber c) filtered) ''tasks'' =
        Some (JArr (map JObj filtered)) \<and>
      (\<forall>t \<in> set filtered. map_of t ''status'' = Some (JStr s)) \<and>
      get_prop (list_response c (pageNumber c) (limitNumber c) filtered) ''metadata'' =
        Some (JObj [(''total'', JNum (int (length filtered))),
                    (''page'', num_json (pageNumber c)),
                    (''limit'', num_json (limitNumber c))]) \<and>
      env' = env"
proof -
  obtain keys where keys: "list_keys c env = Inr keys"
    using assms(3) by (cases "list_keys c env") (simp_all add: get_tasks_def)
  obtain page where page: "Promise_all (map (task_view c env) keys) = Inr page"
    using assms(3) keys
    by (cases "Promise_all (map (task_view c env) keys)") (simp_all add: get_tasks_def)
  define filtered where "filtered = filter (keep_task (Some s) (map_of (query c) ''priority'')) page"
  have res: "res = \<lparr>status = 200, payload = Json (list_response c (pageNumber c) (limitNumber c) filtered)\<rparr>"
    and env: "env' = env"
    using assms(1,3) keys page by (simp_all add: get_tasks_def filtered_def c_json_def)
  have all: "\<forall>t \<in> set filtered. map_of t ''status'' = Some (JStr s)"
    using assms(2) by (auto simp: filtered_def dest: keep_task_status)
  have len: "length page = length keys"
    using Promise_all_length [OF page] by simp
  have parts: "get_prop (list_response c (pageNumber c) (limitNumber c) filtered) ''tasks'' =
        Some (JArr (map JObj filtered))"
    "get_prop (list_response c (pageNumber c) (limitNumber c) filtered) ''metadata'' =
        Some (JObj [(''total'', JNum (int (length filtered))),
                    (''page'', num_json (pageNumber c)),
                    (''limit'', num_json (limitNumber c))])"
    by (simp_all add: list_response_def get_prop_def)
  show ?thesis
    using keys page len res env all parts filtered_def by blast
qed

text \<open>
  The example store has three tasks, two of them done, and the counter of the rate
  limiter. The page has four keys and the list for \<^verbatim>\<open>status=done\<close> has two records.
\<close>

lemma ex_parse_t2: "JSON_parse (JSON_stringify ex_t2) = Some ex_t2"
  by (simp add: ex_t2_def ex_task_def js_eval)

lemma ex_parse_t3: "JSON_parse (JSON_stringify ex_t3) = Some ex_t3"
  by (simp add: ex_t3_def ex_task_def js_eval)

lemma ex_parse_counter: "JSON_parse ''1'' = Some (JNum 1)"
  by (simp add: js_eval)

lemma ex_list_keys:
  "list_keys ex_list_ctx ex_env_tasks = Inr [''rate_limit:203.0.113.7'', ''t1'', ''t2'', ''t3'']"
  by (simp add: list_keys_def pageNumber_def limitNumber_def ex_list_ctx_def ex_ctx_def
      ex_env_tasks_def ex_entry_def ex_counter_def kv_list_def kv_keys_def kv_live_def kv_now_def
      num_mul_def num_add_def num_gt_def js_eval)


lemma ex_get_t23:
  "kv_get t (TASKS ex_env_tasks) ''t2'' = Inr (Some (JSON_stringify ex_t2))"
  "kv_get t (TASKS ex_env_tasks) ''t3'' = Inr (Some (JSON_stringify ex_t3))"
  by (simp_all add: ex_env_tasks_def ex_entry_def kv_get_def kv_read_def kv_live_def kv_key_ok_def
      utf8_length_def del: JSON_stringify.simps)

lemma ex_get_counter:
  "kv_get (kv_now ex_list_ctx) (TASKS ex_env_tasks) ''rate_limit:203.0.113.7'' = Inr (Some ''1'')"
  by (simp add: ex_env_tasks_def ex_entry_def ex_counter_def kv_get_def kv_read_def kv_live_def
      kv_key_ok_def utf8_length_def kv_now_def ex_list_ctx_def ex_ctx_def del: JSON_stringify.simps)

lemma ex_views:
  "task_view ex_list_ctx ex_env_tasks ''rate_limit:203.0.113.7'' =
     Inr [(''links'', JObj [(''self'', JStr ''/api/v1/tasks/undefined''),
                           (''comments'', JStr ''/api/v1/tasks/undefined/comments'')])]"
  "task_view ex_list_ctx ex_env_tasks ''t1'' = Inr (ex_listed ''t1'' ''Buy milk'' ''todo'' ''medium'')"
  "task_view ex_list_ctx ex_env_tasks ''t2'' = Inr (ex_listed ''t2'' ''Write report'' ''done'' ''high'')"
  "task_view ex_list_ctx ex_env_tasks ''t3'' = Inr (ex_listed ''t3'' ''Call Bob'' ''done'' ''low'')"
proof -
  have p: "path ex_list_ctx = ''/api/v1/tasks''"
    by (simp add: ex_list_ctx_def)
  show "task_view ex_list_ctx ex_env_tasks ''rate_limit:203.0.113.7'' =
     Inr [(''links'', JObj [(''self'', JStr ''/api/v1/tasks/undefined''),
                           (''comments'', JStr ''/api/v1/tasks/undefined/comments'')])]"
    by (simp add: task_view_def ex_get_counter ex_parse_counter p spread_def get_prop_def
        template_def obj_assign_def)
  show "task_view ex_list_ctx ex_env_tasks ''t1'' = Inr (ex_listed ''t1'' ''Buy milk'' ''todo'' ''medium'')"
    unfolding task_view_def ex_get_t1 sum.case option.case ex_parse_t1
    by (simp add: p ex_t1_def ex_task_def ex_listed_def spread_def get_prop_def template_def
        obj_assign_def)
  show "task_view ex_list_ctx ex_env_tasks ''t2'' = Inr (ex_listed ''t2'' ''Write report'' ''done'' ''high'')"
    unfolding task_view_def ex_get_t23 sum.case option.case ex_parse_t2
    by (simp add: p ex_t2_def ex_task_def ex_listed_def spread_def get_prop_def template_def
        obj_assign_def)
  show "task_view ex_list_ctx ex_env_tasks ''t3'' = Inr (ex_listed ''t3'' ''Call Bob'' ''done'' ''low'')"
    unfolding task_view_def ex_get_t23 sum.case option.case ex_parse_t3
    by (simp add: p ex_t3_def ex_task_def ex_listed_def spread_def get_prop_def template_def
        obj_assign_def)
qed

lemma ex_get_tasks:
  "get_tasks ex_list_ctx ex_env_tasks =
     (Inr \<lparr>status = 200, payload = Json (list_response ex_list_ctx (Some 1) (Some 10)
        [ex_listed ''t2'' ''Write report'' ''done'' ''high'', ex_listed ''t3'' ''Call Bob'' ''done'' ''low''])\<rparr>,
      ex_env_tasks)"
proof -
  have q: "map_of (query ex_list_ctx) ''status'' = Some ''done''"
    "map_of (query ex_list_ctx) ''priority'' = None"
    by (simp_all add: ex_list_ctx_def)
  have n: "pageNumber ex_list_ctx = Some 1" "limitNumber ex_list_ctx = Some 10"
    by (simp_all add: pageNumber_def limitNumber_def ex_list_ctx_def js_eval)
  show ?thesis
    by (simp add: get_tasks_def ex_list_keys ex_views q n keep_task_def truthy_def ex_listed_def
        c_json_def)
qed

theorem get_tasks_status_filter_witness:
  "map_of (query ex_list_ctx) ''status'' = Some ''done'' \<and>
   list_keys ex_list_ctx ex_env_tasks = Inr [''rate_limit:203.0.113.7'', ''t1'', ''t2'', ''t3''] \<and>
   get_tasks ex_list_ctx ex_env_tasks =
     (Inr \<lparr>status = 200, payload = Json (list_response ex_list_ctx (Some 1) (Some 10)
        [ex_listed ''t2'' ''Write report'' ''done'' ''high'', ex_listed ''t3'' ''Call Bob'' ''done'' ''low''])\<rparr>,
      ex_env_tasks) \<and>
   get_prop (list_response ex_list_ctx (Some 1) (Some 10)
        [ex_listed ''t2'' ''Write report'' ''done'' ''high'', ex_listed ''t3'' ''Call Bob'' ''done'' ''low''])
     ''metadata'' = Some (JObj [(''total'', JNum 2), (''page'', JNum 1), (''limit'', JNum 10)])"
proof -
  have q: "map_of (query ex_list_ctx) ''status'' = Some ''done''"
    by (simp add: ex_list_ctx_def)
  have n: "pageNumber ex_list_ctx = Some 1" "limitNumber ex_list_ctx = Some 10"
    by (simp_all add: pageNumber_def limitNumber_def ex_list_ctx_def js_eval)
  from get_tasks_status_filter [OF q _ ex_get_tasks]
  obtain filtered where
    f: "\<lparr>status = 200, payload = Json (list_response ex_list_ctx (Some 1) (Some 10)
        [ex_listed ''t2'' ''Write report'' ''done'' ''high'', ex_listed ''t3'' ''Call Bob'' ''done'' ''low''])\<rparr> =
      \<lparr>status = 200, payload = Json (list_response ex_list_ctx (pageNumber ex_list_ctx)
        (limitNumber ex_list_ctx) filtered)\<rparr>"
    and m: "get_prop (list_response ex_list_ctx (pageNumber ex_list_ctx) (limitNumber ex_list_ctx) filtered)
        ''metadata'' = Some (JObj [(''total'', JNum (int (length filtered))),
                    (''page'', num_json (pageNumber ex_list_ctx)),
                    (''limit'', num_json (limitNumber ex_list_ctx))])"
    by auto
  have inj: "inj JObj"
    by (rule injI) simp
  from f have "map JObj
      [ex_listed ''t2'' ''Write report'' ''done'' ''high'', ex_listed ''t3'' ''Call Bob'' ''done'' ''low''] =
      map JObj filtered"
    by (simp add: list_response_def n)
  then have "filtered =
      [ex_listed ''t2'' ''Write report'' ''done'' ''high'', ex_listed ''t3'' ''Call Bob'' ''done'' ''low'']"
    unfolding inj_map_eq_map [OF inj] by (rule sym)
  with m have "get_prop (list_response ex_list_ctx (Some 1) (Some 10)
        [ex_listed ''t2'' ''Write report'' ''done'' ''high'', ex_listed ''t3'' ''Call Bob'' ''done'' ''low''])
     ''metadata'' = Some (JObj [(''total'', JNum 2), (''page'', JNum 1), (''limit'', JNum 10)])"
    by (simp add: n num_json_def)
  then show ?thesis
    using q ex_list_keys ex_get_tasks by simp
qed

section \<open>The counter in the task store\<close>














end
